theory Spec2Isabelle
  imports Complex_Main
begin

section \<open>Data model\<close>

text \<open>
  The reservation core of the booking backend: \<^verbatim>\<open>retirement/serializers.py\<close>
  (\<^verbatim>\<open>RetirementSerializer\<close>, \<^verbatim>\<open>ReservationSerializer\<close>) and \<^verbatim>\<open>retirement/views.py\<close>
  (\<^verbatim>\<open>RetreatViewSet.notify\<close>, \<^verbatim>\<open>ReservationViewSet.destroy\<close>,
  \<^verbatim>\<open>WaitQueueViewSet.destroy\<close>). The serializers call the event a retirement, the
  views call it a retreat; it is one table here.

  Rows are addressed by primary key; a table is the list of its rows in insertion
  order. A \<^verbatim>\<open>datetime\<close> is a count of microseconds (the resolution of Python's
  \<^verbatim>\<open>datetime\<close>), a \<^verbatim>\<open>Decimal\<close> is an exact rational (the 28-digit context
  rounding of Python's decimal arithmetic is not modelled).
\<close>

type_synonym pk = nat
type_synonym datetime = int
type_synonym 'a table = "(pk \<times> 'a) list"

definition timedelta :: "int \<Rightarrow> int \<Rightarrow> int \<Rightarrow> int" where
  \<comment> \<open>\<^verbatim>\<open>timedelta(days=d, hours=h, minutes=m)\<close> in microseconds\<close>
  "timedelta d h m = ((d * 24 + h) * 60 + m) * 60 * 1000000"

record retreat =
  seats :: int
  reserved_seats :: int
  price :: rat
  start_time :: datetime
  end_time :: datetime
  min_day_refund :: int
  min_day_exchange :: int
  refund_rate :: int
  next_user_notified :: int
  retreat_is_active :: bool
  hidden :: bool

record reservation =
  res_user :: pk
  res_retreat :: pk
  res_order_line :: "pk option"
  is_active :: bool
  is_present :: bool
  cancelation_date :: "datetime option"
  cancelation_reason :: "string option"
  cancelation_action :: "string option"

record order_line =
  ol_order :: pk
  quantity :: int
  object_id :: pk
  cost :: "rat option"

record order_row =
  order_user :: pk
  transaction_date :: datetime
  authorization_id :: string
  settlement_id :: string
  reference_number :: string

datatype refund_details = Exchange_retirement pk pk | Reason string

record refund =
  refund_orderline :: pk
  refund_date :: datetime
  rf_amount :: rat
  details :: refund_details

record wait_queue =
  wq_user :: pk
  wq_retreat :: pk
  wq_created_at :: datetime

record wait_queue_notification =
  wqn_user :: pk
  wqn_retreat :: pk
  wqn_created_at :: datetime

record payment_profile =
  owner :: pk
  external_api_id :: string

record db =
  retreats :: "retreat table"
  reservations :: "reservation table"
  order_lines :: "order_line table"
  orders :: "order_row table"
  refunds :: "refund table"
  wait_queues :: "wait_queue table"
  wait_queue_notifications :: "wait_queue_notification table"
  payment_profiles :: "payment_profile table"

subsection \<open>Table operations (the ORM calls the code makes)\<close>

definition get_row :: "'a table \<Rightarrow> pk \<Rightarrow> 'a option" where
  \<comment> \<open>\<^verbatim>\<open>objects.get(id=k)\<close>, \<^verbatim>\<open>None\<close> for \<^verbatim>\<open>DoesNotExist\<close>\<close>
  "get_row t k = map_of t k"

fun next_pk :: "'a table \<Rightarrow> pk" where
  "next_pk [] = 1"
| "next_pk ((k, _) # t) = max (Suc k) (next_pk t)"

definition create_row :: "'a table \<Rightarrow> 'a \<Rightarrow> 'a table" where
  \<comment> \<open>\<^verbatim>\<open>objects.create(...)\<close>, and \<^verbatim>\<open>save()\<close> of an instance whose pk is \<^verbatim>\<open>None\<close>\<close>
  "create_row t row = t @ [(next_pk t, row)]"

definition save_row :: "'a table \<Rightarrow> pk \<Rightarrow> 'a \<Rightarrow> 'a table" where
  \<comment> \<open>\<^verbatim>\<open>instance.save()\<close> of an existing row\<close>
  "save_row t k row = map (\<lambda>(k', row'). if k' = k then (k', row) else (k', row')) t"

definition delete_rows :: "(pk \<times> 'a \<Rightarrow> bool) \<Rightarrow> 'a table \<Rightarrow> 'a table" where
  \<comment> \<open>\<^verbatim>\<open>objects.filter(...).delete()\<close>\<close>
  "delete_rows P t = filter (\<lambda>kv. \<not> P kv) t"

subsection \<open>Errors, responses, collaborators\<close>

datatype payment_api_error = PAYSAFE_EXCEPTION_3406 | Other_payment_error string

datatype validation_error =
    Only_is_present_and_retirement_can_be_updated
  | Overlaps_with_another_active_reservation
  | Quantity_bigger_than_1_contact_support
  | Provide_a_payment_token_or_single_use_token
  | Retirement_already_assigned
  | Maximum_exchange_date_exceeded
  | No_places_left
  | Order_not_charged_yet
  | Payment_message payment_api_error
  | Payment_system_error payment_api_error
  | Object_does_not_exist

datatype error =
    ValidationError validation_error
  | Http404
  | KeyError
  | FieldError
  | AttributeError
  | UnboundLocalError
  | ValueError
  | DoesNotExist
  | Mail_delivery_error

datatype response =
    HTTP_204_NO_CONTENT
  | HTTP_200_OK string bool

text \<open>
  Calls that leave the process, in the order they are issued. A call is recorded when
  it is made, whether or not the collaborator then answers with an error.
\<close>

datatype mail =
    Purchase_confirmation
  | Refund_confirmation
  | Exchange_confirmation
  | Registration_confirmation
  | Seat_available

datatype effect =
    Create_external_payment_profile pk
  | Create_external_card string string
  | Charge_payment int string pk
  | Refund_amount string rat
  | Send_mail mail pk
  | Notify_scheduler_waite_queue pk

record charge_content =
  charge_id :: string
  charge_settlement_id :: string
  merchantRefNum :: string

text \<open>
  What one request reads from outside the database: the settings, the clock
  (\<^verbatim>\<open>timezone.now()\<close>, one reading per request) and the answers of the payment
  gateway and of the mail backend.
\<close>

record env =
  TAX_RATE :: rat
  RETREAT_NOTIFICATION_LIFETIME_DAYS :: int
  now :: datetime
  create_profile_res :: "payment_api_error + string"
  create_card_res :: "payment_api_error + string"
  charge_res :: "payment_api_error + charge_content"
  refund_res :: "payment_api_error + unit"
  mail_ok :: bool

section \<open>\<^verbatim>\<open>RetirementSerializer.get_places_remaining\<close>\<close>

definition active_reservations_count :: "db \<Rightarrow> pk \<Rightarrow> int" where
  \<comment> \<open>\<^verbatim>\<open>obj.reservations.filter(is_active=True).count()\<close>\<close>
  "active_reservations_count d rid =
     int (length (filter (\<lambda>(k, r). res_retreat r = rid \<and> is_active r) (reservations d)))"

definition get_places_remaining :: "db \<Rightarrow> pk \<times> retreat \<Rightarrow> int" where
  "get_places_remaining d obj =
     (let seats = seats (snd obj);
          reserved_seats = reserved_seats (snd obj);
          reservations = active_reservations_count d (fst obj)
      in seats - reservations - reserved_seats)"

text \<open>
  Modelled from the spec: \<^verbatim>\<open>Retreat.places_remaining\<close>, a property of the model class
  (the models module is not part of the sources). The spec gives
  \<open>places_remaining = seats - active_reservation_count - reserved_seats\<close>, which is
  also what \<^verbatim>\<open>get_places_remaining\<close> computes.
\<close>

definition places_remaining :: "db \<Rightarrow> pk \<times> retreat \<Rightarrow> int" where
  "places_remaining d obj =
     seats (snd obj) - active_reservations_count d (fst obj) - reserved_seats (snd obj)"

section \<open>\<^verbatim>\<open>ReservationViewSet.destroy\<close>\<close>

record request_user =
  user_id :: pk
  is_staff :: bool

definition get_object_reservation :: "db \<Rightarrow> request_user \<Rightarrow> pk \<Rightarrow> error + reservation" where
  \<comment> \<open>\<^verbatim>\<open>self.get_object()\<close> over \<^verbatim>\<open>get_queryset()\<close>: all rows for staff, the user's own otherwise\<close>
  "get_object_reservation d u k =
     (case get_row (reservations d) k of
        None \<Rightarrow> Inl Http404
      | Some r \<Rightarrow> if is_staff u \<or> res_user r = user_id u then Inr r else Inl Http404)"

definition line_and_order ::
  "db \<Rightarrow> pk option \<Rightarrow> error + ((pk \<times> order_line) \<times> order_row) option" where
  \<comment> \<open>\<^verbatim>\<open>order_line = instance.order_line\<close> and \<^verbatim>\<open>order = order_line.order\<close>\<close>
  "line_and_order d ol =
     (case ol of
        None \<Rightarrow> Inr None
      | Some l \<Rightarrow>
          (case get_row (order_lines d) l of
             None \<Rightarrow> Inl DoesNotExist
           | Some line \<Rightarrow>
               (case get_row (orders d) (ol_order line) of
                  None \<Rightarrow> Inl DoesNotExist
                | Some order \<Rightarrow> Inr (Some ((l, line), order)))))"

text \<open>
  Modelled from the spec: \<^verbatim>\<open>Reservation.refundable\<close> (models module, not part of the
  sources). The spec calls a line refundable when the order-line quantity is 1 and it
  was not already refunded.
\<close>

definition refundable :: "db \<Rightarrow> pk \<times> order_line \<Rightarrow> bool" where
  "refundable d l =
     (quantity (snd l) = 1 \<and> \<not> list_ex (\<lambda>(k, rf). refund_orderline rf = fst l) (refunds d))"

text \<open>
  Modelled from the spec: \<^verbatim>\<open>Reservation.make_refund\<close> (models module, not part of the
  sources). The spec says it issues a gateway refund for \<open>refund_rate\<close> percent of the
  paid price plus proportional tax; the paid price is the order line's cost, and the
  refund is recorded in a Refund row. The spec gives no rounding rule, so the amount
  (in cents) is passed on exactly. The gateway may answer with an error.
\<close>

definition refund_value :: "env \<Rightarrow> retreat \<Rightarrow> order_line \<Rightarrow> rat" where
  "refund_value e ev l =
     (let paid = (case cost l of None \<Rightarrow> 0 | Some c \<Rightarrow> c);
          part = paid * of_int (refund_rate ev) / 100
      in part + part * TAX_RATE e)"

definition make_refund ::
  "env \<Rightarrow> db \<Rightarrow> retreat \<Rightarrow> (pk \<times> order_line) \<Rightarrow> order_row \<Rightarrow> string
     \<Rightarrow> (payment_api_error + db \<times> refund) \<times> effect list" where
  "make_refund e d ev l order refund_reason =
     (let v = refund_value e ev (snd l);
          call = Refund_amount (settlement_id order) (v * 100);
          rf = \<lparr>refund_orderline = fst l, refund_date = now e, rf_amount = v,
                details = Reason refund_reason\<rparr>
      in case refund_res e of
           Inl err \<Rightarrow> (Inl err, [call])
         | Inr _ \<Rightarrow> (Inr (d\<lparr>refunds := create_row (refunds d) rf\<rparr>, rf), [call]))"

definition cancel_refund ::
  "env \<Rightarrow> db \<Rightarrow> retreat \<Rightarrow> ((pk \<times> order_line) \<times> order_row) option \<Rightarrow> bool \<Rightarrow> bool
     \<Rightarrow> (error + db \<times> string) \<times> effect list" where
  \<comment> \<open>lines 385-409: the refund, and the choice of \<^verbatim>\<open>cancelation_action\<close>\<close>
  "cancel_refund e d ev lo respects_minimum_days refundable' =
     (if respects_minimum_days \<and> refundable' then
        (case lo of
           None \<Rightarrow> (Inl AttributeError, [])
         | Some (l, order) \<Rightarrow>
             (case make_refund e d ev l order ''Reservation canceled'' of
                (Inl err, effs) \<Rightarrow>
                  (if err = PAYSAFE_EXCEPTION_3406
                   then (Inl (ValidationError Order_not_charged_yet), effs)
                   else (Inl (ValidationError (Payment_system_error err)), effs))
              | (Inr (d', rf), effs) \<Rightarrow> (Inr (d', ''R''), effs)))
      else (Inr (d, ''N''), []))"

definition destroy ::
  "env \<Rightarrow> db \<Rightarrow> request_user \<Rightarrow> pk \<Rightarrow> (error + response) \<times> db \<times> effect list" where
  "destroy e d u k =
     (case get_object_reservation d u k of
        Inl err \<Rightarrow> (Inl err, d, [])
      | Inr instance \<Rightarrow>
     (case get_row (retreats d) (res_retreat instance) of
        None \<Rightarrow> (Inl DoesNotExist, d, [])
      | Some retreat \<Rightarrow>
     (case line_and_order d (res_order_line instance) of
        Inl err \<Rightarrow> (Inl err, d, [])
      | Inr lo \<Rightarrow>
       (let user = res_user instance;
            reservation_active = is_active instance;
            refundable' = (case lo of None \<Rightarrow> False | Some (l, order) \<Rightarrow> refundable d l);
            respects_minimum_days =
              (start_time retreat - now e \<ge> timedelta (min_day_refund retreat) 0 0)
        in if \<not> reservation_active then (Inr HTTP_204_NO_CONTENT, d, [])
           else if (case lo of None \<Rightarrow> False | Some ((_, line), _) \<Rightarrow> quantity line > 1)
           then (Inl (ValidationError Quantity_bigger_than_1_contact_support), d, [])
           else
             (case cancel_refund e d retreat lo respects_minimum_days refundable' of
                (Inl err, effs) \<Rightarrow> (Inl err, d, effs)
              | (Inr (d1, action), effs) \<Rightarrow>
                 (let instance' = instance\<lparr>cancelation_action := Some action,
                                            is_active := False,
                                            cancelation_reason := Some ''U'',
                                            cancelation_date := Some (now e)\<rparr>;
                      d2 = d1\<lparr>reservations := save_row (reservations d1) k instance'\<rparr>;
                      free_seats = places_remaining d2 (res_retreat instance, retreat);
                      retreat' = (if reserved_seats retreat \<noteq> 0 \<or> free_seats = 1
                                  then retreat\<lparr>reserved_seats := reserved_seats retreat + 1\<rparr>
                                  else retreat);
                      effs' = effs @ [Notify_scheduler_waite_queue (res_retreat instance)];
                      d3 = d2\<lparr>retreats := save_row (retreats d2) (res_retreat instance) retreat'\<rparr>
                  in if action = ''R'' then
                       (if mail_ok e
                        then (Inr HTTP_204_NO_CONTENT, d3,
                              effs' @ [Send_mail Refund_confirmation user])
                        else (Inl Mail_delivery_error, d3,
                              effs' @ [Send_mail Refund_confirmation user]))
                     else (Inr HTTP_204_NO_CONTENT, d3, effs')))))))"

section \<open>\<^verbatim>\<open>RetreatViewSet.notify\<close>\<close>

definition get_object_retreat :: "db \<Rightarrow> bool \<Rightarrow> pk \<Rightarrow> error + retreat" where
  \<comment> \<open>\<^verbatim>\<open>get_queryset()\<close>: all retreats for staff, the active and visible ones otherwise\<close>
  "get_object_retreat d staff k =
     (case get_row (retreats d) k of
        None \<Rightarrow> Inl Http404
      | Some r \<Rightarrow> if staff \<or> (retreat_is_active r \<and> \<not> hidden r) then Inr r else Inl Http404)"

definition wait_queue_list :: "db \<Rightarrow> pk \<Rightarrow> wait_queue table" where
  \<comment> \<open>\<^verbatim>\<open>retreat.wait_queue.all().order_by('created_at')\<close>; equal timestamps keep table order\<close>
  "wait_queue_list d rid =
     sort_key (\<lambda>kv. wq_created_at (snd kv)) (filter (\<lambda>(k, w). wq_retreat w = rid) (wait_queues d))"

text \<open>
  Modelled from the spec: \<^verbatim>\<open>Retreat.notify_users\<close> (models module, not part of the
  sources). For as many reserved seats as the event holds, the next user of the queue
  (in queue order, from the cursor) is notified and gets a WaitQueueNotification row,
  and the cursor advances; it stops when the queue is exhausted and reports whether
  anyone was notified.
\<close>

definition notify_users :: "env \<Rightarrow> db \<Rightarrow> pk \<times> retreat \<Rightarrow> bool \<times> db \<times> effect list" where
  "notify_users e d obj =
     (let queue = wait_queue_list d (fst obj);
          chosen = take (nat (reserved_seats (snd obj)))
                     (drop (nat (next_user_notified (snd obj))) queue);
          rows = map (\<lambda>(k, w). \<lparr>wqn_user = wq_user w, wqn_retreat = fst obj,
                                  wqn_created_at = now e\<rparr>) chosen;
          ev' = (snd obj)\<lparr>next_user_notified :=
                            next_user_notified (snd obj) + int (length chosen)\<rparr>
      in (chosen \<noteq> [],
          d\<lparr>wait_queue_notifications := fold (\<lambda>row t. create_row t row) rows (wait_queue_notifications d),
            retreats := save_row (retreats d) (fst obj) ev'\<rparr>,
          map (\<lambda>(k, w). Send_mail Seat_available (wq_user w)) chosen))"

definition notify :: "env \<Rightarrow> db \<Rightarrow> bool \<Rightarrow> pk \<Rightarrow> (error + response) \<times> db \<times> effect list" where
  "notify e d staff k =
     (let time_limit = now e - timedelta 0 23 55 in
      case get_object_retreat d staff k of
        Inl err \<Rightarrow> (Inl err, d, [])
      | Inr retreat \<Rightarrow>
         (let remove_before = now e - timedelta (RETREAT_NOTIFICATION_LIFETIME_DAYS e) 0 0;
              d1 = d\<lparr>wait_queue_notifications :=
                       delete_rows (\<lambda>(_, n). wqn_created_at n < remove_before \<and> wqn_retreat n = k)
                         (wait_queue_notifications d)\<rparr>
          in if \<not> list_ex (\<lambda>(_, n). wqn_retreat n = k \<and> wqn_created_at n > time_limit)
                     (wait_queue_notifications d1)
             then (case notify_users e d1 (k, retreat) of
                     (notified_someone, d2, effs) \<Rightarrow>
                       if \<not> notified_someone
                       then (Inr (HTTP_200_OK ''No reserved seats.'' True), d2, effs)
                       else (Inr HTTP_204_NO_CONTENT, d2, effs))
             else (Inr (HTTP_200_OK ''Last notification was sent less than 24h ago.'' False),
                   d1, [])))"

section \<open>\<^verbatim>\<open>WaitQueueViewSet.destroy\<close>\<close>

definition get_object_wait_queue :: "db \<Rightarrow> request_user \<Rightarrow> pk \<Rightarrow> error + wait_queue" where
  "get_object_wait_queue d u k =
     (case get_row (wait_queues d) k of
        None \<Rightarrow> Inl Http404
      | Some w \<Rightarrow> if is_staff u \<or> wq_user w = user_id u then Inr w else Inl Http404)"

fun index :: "'a table \<Rightarrow> pk \<Rightarrow> nat option" where
  \<comment> \<open>\<^verbatim>\<open>list(...).index(obj)\<close>, instances compared by primary key; \<^verbatim>\<open>None\<close> for \<^verbatim>\<open>ValueError\<close>\<close>
  "index [] k = None"
| "index ((k', _) # t) k = (if k' = k then Some 0 else map_option Suc (index t k))"

definition wait_queue_destroy ::
  "db \<Rightarrow> request_user \<Rightarrow> pk \<Rightarrow> (error + response) \<times> db" where
  "wait_queue_destroy d u k =
     (case get_object_wait_queue d u k of
        Inl err \<Rightarrow> (Inl err, d)
      | Inr wait_queue_object \<Rightarrow>
     (case get_row (retreats d) (wq_retreat wait_queue_object) of
        None \<Rightarrow> (Inl DoesNotExist, d)
      | Some retreat \<Rightarrow>
     (case index (wait_queue_list d (wq_retreat wait_queue_object)) k of
        None \<Rightarrow> (Inl ValueError, d)
      | Some wait_queue_pos \<Rightarrow>
         (let rid = wq_retreat wait_queue_object;
              d1 = (if int wait_queue_pos < next_user_notified retreat
                    then d\<lparr>retreats := save_row (retreats d) rid
                             (retreat\<lparr>next_user_notified := next_user_notified retreat - 1\<rparr>)\<rparr>
                    else d);
              d2 = d1\<lparr>wait_queue_notifications :=
                        delete_rows (\<lambda>(_, n). wqn_retreat n = rid
                                       \<and> wqn_user n = wq_user wait_queue_object)
                          (wait_queue_notifications d1)\<rparr>;
              d3 = d2\<lparr>wait_queues := delete_rows (\<lambda>(k', _). k' = k) (wait_queues d2)\<rparr>
          in (Inr HTTP_204_NO_CONTENT, d3)))))"

section \<open>\<^verbatim>\<open>ReservationSerializer\<close>\<close>

text \<open>
  \<^verbatim>\<open>validated_data\<close>: the fields a request gave, \<^verbatim>\<open>None\<close> for a key that is absent.
  A nullable field that is present holds \<^verbatim>\<open>Some None\<close> for null. A related object is
  held by its primary key; the serializer field resolves it before \<^verbatim>\<open>validate\<close>
  runs and rejects a key without a row.
\<close>

record attrs =
  a_user :: "pk option"
  a_retirement :: "pk option"
  a_order_line :: "pk option option"
  a_is_active :: "bool option"
  a_is_present :: "bool option"
  a_cancelation_date :: "datetime option option"
  a_cancelation_reason :: "string option option"
  a_cancelation_action :: "string option option"
  a_payment_token :: "string option option"
  a_single_use_token :: "string option option"

datatype action = Create | Partial_update

definition given :: "'a option \<Rightarrow> 'a \<Rightarrow> bool" where
  \<comment> \<open>one keyword of a lookup: no constraint when the key is absent\<close>
  "given field v = (case field of None \<Rightarrow> True | Some x \<Rightarrow> v = x)"

definition matches :: "attrs \<Rightarrow> reservation \<Rightarrow> bool" where
  \<comment> \<open>the rows that \<^verbatim>\<open>exclude(**validated_data)\<close> removes: those equal on every given field\<close>
  "matches a r =
     (given (a_user a) (res_user r) \<and> given (a_retirement a) (res_retreat r)
      \<and> given (a_order_line a) (res_order_line r) \<and> given (a_is_active a) (is_active r)
      \<and> given (a_is_present a) (is_present r)
      \<and> given (a_cancelation_date a) (cancelation_date r)
      \<and> given (a_cancelation_reason a) (cancelation_reason r)
      \<and> given (a_cancelation_action a) (cancelation_action r))"

definition reservation_times ::
  "db \<Rightarrow> (pk \<times> reservation \<Rightarrow> bool) \<Rightarrow> (datetime \<times> datetime) list" where
  \<comment> \<open>\<^verbatim>\<open>values_list('retirement__start_time', 'retirement__end_time')\<close> of the selected rows\<close>
  "reservation_times d P =
     List.map_filter
       (\<lambda>kr. if P kr
              then map_option (\<lambda>ev. (start_time ev, end_time ev))
                     (get_row (retreats d) (res_retreat (snd kr)))
              else None)
       (reservations d)"

fun overlaps :: "(datetime \<times> datetime) list \<Rightarrow> datetime \<Rightarrow> datetime \<Rightarrow> bool" where
  \<comment> \<open>the loop over \<^verbatim>\<open>active_reservations\<close>: true when it raises\<close>
  "overlaps [] start end = False"
| "overlaps (retirements # rest) start end =
     (if max (fst retirements) start < min (snd retirements) end then True
      else overlaps rest start end)"

definition validate :: "action \<Rightarrow> db \<Rightarrow> attrs \<Rightarrow> error + attrs" where
  "validate act d a =
     (case act of
        Partial_update \<Rightarrow>
          (if a_user a \<noteq> None \<or> a_order_line a \<noteq> None \<or> a_is_active a \<noteq> None
              \<or> a_cancelation_date a \<noteq> None \<or> a_cancelation_reason a \<noteq> None
              \<or> a_cancelation_action a \<noteq> None
           then Inl (ValidationError Only_is_present_and_retirement_can_be_updated)
           else Inr a)
      | Create \<Rightarrow>
          (case a_retirement a of
             None \<Rightarrow> Inl KeyError
           | Some rid \<Rightarrow>
          (case get_row (retreats d) rid of
             None \<Rightarrow> Inl (ValidationError Object_does_not_exist)
           | Some ev \<Rightarrow>
          (case a_user a of
             None \<Rightarrow> Inl KeyError
           | Some u \<Rightarrow>
               if a_payment_token a \<noteq> None \<or> a_single_use_token a \<noteq> None then Inl FieldError
               else if overlaps
                         (reservation_times d
                            (\<lambda>(k, r). res_user r = u \<and> is_active r \<and> \<not> matches a r))
                         (start_time ev) (end_time ev)
               then Inl (ValidationError Overlaps_with_another_active_reservation)
               else Inr a))))"

subsection \<open>Decimal arithmetic\<close>

definition round_half_even :: "rat \<Rightarrow> int" where
  "round_half_even x =
     (let f = \<lfloor>x\<rfloor>; r = x - of_int f
      in if r < 1 / 2 then f else if 1 / 2 < r then f + 1 else if even f then f else f + 1)"

definition round2 :: "rat \<Rightarrow> rat" where
  \<comment> \<open>\<^verbatim>\<open>round(x, 2)\<close> of a \<^verbatim>\<open>Decimal\<close>: two places, ties to even\<close>
  "round2 x = of_int (round_half_even (x * 100)) / 100"

definition int_of_decimal :: "rat \<Rightarrow> int" where
  \<comment> \<open>\<^verbatim>\<open>int(x)\<close>: truncation toward zero\<close>
  "int_of_decimal x = (if 0 \<le> x then \<lfloor>x\<rfloor> else \<lceil>x\<rceil>)"

subsection \<open>\<^verbatim>\<open>update\<close>\<close>

definition truthy :: "string option option \<Rightarrow> bool" where
  \<comment> \<open>Python truth of a token after \<^verbatim>\<open>pop(key, None)\<close>: absent, null and blank are false\<close>
  "truthy t = (case t of Some (Some s) \<Rightarrow> s \<noteq> [] | _ \<Rightarrow> False)"

definition token :: "string option option \<Rightarrow> string" where
  "token t = (case t of Some (Some s) \<Rightarrow> s | _ \<Rightarrow> [])"

definition first_profile :: "db \<Rightarrow> pk \<Rightarrow> (pk \<times> payment_profile) option" where
  \<comment> \<open>\<^verbatim>\<open>PaymentProfile.objects.filter(owner=user).first()\<close>\<close>
  "first_profile d u =
     (case filter (\<lambda>(k, p). owner p = u) (payment_profiles d) of [] \<Rightarrow> None | x # _ \<Rightarrow> Some x)"

definition exchange_checks ::
  "env \<Rightarrow> pk \<times> retreat \<Rightarrow> pk \<times> retreat \<Rightarrow> string option option \<Rightarrow> string option option
     \<Rightarrow> error + bool \<times> bool \<times> rat" where
  \<comment> \<open>lines 350-382; the result is \<^verbatim>\<open>(need_transaction, need_refund, amount)\<close>\<close>
  "exchange_checks e cur new payment_token single_use_token =
     (let respects_minimum_days =
            (start_time (snd cur) - now e \<ge> timedelta (min_day_exchange (snd cur)) 0 0);
          need_transaction = (price (snd cur) < price (snd new));
          need_refund = (price (snd cur) > price (snd new));
          amount = (if need_refund then price (snd cur) - price (snd new)
                    else if need_transaction then price (snd new) - price (snd cur)
                    else 0)
      in if need_transaction \<and> \<not> (truthy payment_token \<or> truthy single_use_token)
         then Inl (ValidationError Provide_a_payment_token_or_single_use_token)
         else if fst cur = fst new then Inl (ValidationError Retirement_already_assigned)
         else if \<not> respects_minimum_days then Inl (ValidationError Maximum_exchange_date_exceeded)
         else Inr (need_transaction, need_refund, amount))"

definition ensure_profile ::
  "env \<Rightarrow> db \<Rightarrow> pk \<Rightarrow> string option option \<Rightarrow> bool
     \<Rightarrow> (error + db \<times> (pk \<times> payment_profile) option) \<times> effect list" where
  \<comment> \<open>lines 383-403\<close>
  "ensure_profile e d user single_use_token need_transaction =
     (let profile = first_profile d user
      in if need_transaction \<and> truthy single_use_token \<and> profile = None then
           (case create_profile_res e of
              Inl err \<Rightarrow>
                (Inl (ValidationError (Payment_message err)), [Create_external_payment_profile user])
            | Inr ext_id \<Rightarrow>
                (let row = \<lparr>owner = user, external_api_id = ext_id\<rparr>
                 in (Inr (d\<lparr>payment_profiles := create_row (payment_profiles d) row\<rparr>,
                          Some (next_pk (payment_profiles d), row)),
                     [Create_external_payment_profile user])))
         else (Inr (d, profile), []))"

text \<open>
  Modelled from the spec: \<^verbatim>\<open>Retirement.total_reservations\<close> (models module, not part of
  the sources): the number of active reservations of the event, the count that
  \<^verbatim>\<open>get_places_remaining\<close> uses.
\<close>

definition total_reservations :: "db \<Rightarrow> pk \<Rightarrow> int" where
  "total_reservations d rid = active_reservations_count d rid"

definition has_place :: "db \<Rightarrow> pk \<Rightarrow> pk \<times> retreat \<Rightarrow> bool" where
  \<comment> \<open>the condition whose negation raises "no places left" (lines 457-461, 567-571)\<close>
  "has_place d user retirement =
     (seats (snd retirement) - total_reservations d (fst retirement)
        - reserved_seats (snd retirement) > 0
      \<or> (reserved_seats (snd retirement) \<noteq> 0
          \<and> list_ex (\<lambda>(k, n). wqn_user n = user \<and> wqn_retreat n = fst retirement)
                (wait_queue_notifications d)))"

definition delete_user_waiting :: "db \<Rightarrow> pk \<Rightarrow> pk \<Rightarrow> db" where
  \<comment> \<open>\<^verbatim>\<open>user_waiting = retirement.wait_queue.filter(user=user)\<close>, deleted when not empty\<close>
  "delete_user_waiting d user rid =
     d\<lparr>wait_queues := delete_rows (\<lambda>(k, w). wq_user w = user \<and> wq_retreat w = rid) (wait_queues d)\<rparr>"

definition charge_step ::
  "env \<Rightarrow> string option option \<Rightarrow> string option option \<Rightarrow> (pk \<times> payment_profile) option
     \<Rightarrow> int \<Rightarrow> pk \<Rightarrow> (error + charge_content) \<times> effect list" where
  \<comment> \<open>lines 471-500; \<^verbatim>\<open>charge_response\<close> is unbound when neither branch runs\<close>
  "charge_step e payment_token single_use_token profile cents order_id =
     (if truthy payment_token \<and> cents \<noteq> 0 then
        (case charge_res e of
           Inl err \<Rightarrow> (Inl (ValidationError (Payment_message err)),
                        [Charge_payment cents (token payment_token) order_id])
         | Inr content \<Rightarrow> (Inr content, [Charge_payment cents (token payment_token) order_id]))
      else if truthy single_use_token \<and> cents \<noteq> 0 then
        (case profile of
           None \<Rightarrow> (Inl AttributeError, [])
         | Some p \<Rightarrow>
            (let card = Create_external_card (external_api_id (snd p)) (token single_use_token)
             in case create_card_res e of
                  Inl err \<Rightarrow> (Inl (ValidationError (Payment_message err)), [card])
                | Inr paymentToken \<Rightarrow>
                    (case charge_res e of
                       Inl err \<Rightarrow> (Inl (ValidationError (Payment_message err)),
                                    [card, Charge_payment cents paymentToken order_id])
                     | Inr content \<Rightarrow>
                         (Inr content, [card, Charge_payment cents paymentToken order_id]))))
      else (Inl UnboundLocalError, []))"

definition exchange_charge ::
  "env \<Rightarrow> db \<Rightarrow> pk \<Rightarrow> pk \<Rightarrow> pk \<times> retreat \<Rightarrow> pk \<times> retreat \<Rightarrow> rat
     \<Rightarrow> string option option \<Rightarrow> string option option \<Rightarrow> (pk \<times> payment_profile) option
     \<Rightarrow> (error + db \<times> pk) \<times> effect list" where
  \<comment> \<open>lines 425-560, the branch \<^verbatim>\<open>need_transaction\<close>; returns the new order line\<close>
  "exchange_charge e d user old_line cur new amount payment_token single_use_token profile =
     (let order_id = next_pk (orders d);
          d1 = d\<lparr>orders := create_row (orders d)
                   \<lparr>order_user = user, transaction_date = now e, authorization_id = ''1'',
                    settlement_id = ''1'', reference_number = []\<rparr>\<rparr>;
          orderline_id = next_pk (order_lines d1);
          d2 = d1\<lparr>order_lines := create_row (order_lines d1)
                    \<lparr>ol_order = order_id, quantity = 1, object_id = fst new, cost = None\<rparr>\<rparr>;
          refund_value = price (snd cur) * (TAX_RATE e + 1);
          d3 = d2\<lparr>refunds := create_row (refunds d2)
                    \<lparr>refund_orderline = old_line, refund_date = now e, rf_amount = refund_value,
                     details = Exchange_retirement (fst cur) (fst new)\<rparr>\<rparr>;
          amount' = round2 (amount * (TAX_RATE e + 1) * 100)
      in if \<not> has_place d3 user new then (Inl (ValidationError No_places_left), [])
         else
           (let d4 = delete_user_waiting d3 user (fst new)
            in case charge_step e payment_token single_use_token profile
                      (int_of_decimal amount') order_id of
                 (Inl err, effs) \<Rightarrow> (Inl err, effs)
               | (Inr content, effs) \<Rightarrow>
                   (let d5 = d4\<lparr>orders := save_row (orders d4) order_id
                                  \<lparr>order_user = user, transaction_date = now e,
                                   authorization_id = charge_id content,
                                   settlement_id = charge_settlement_id content,
                                   reference_number = merchantRefNum content\<rparr>\<rparr>
                    in if mail_ok e
                       then (Inr (d5, orderline_id), effs @ [Send_mail Purchase_confirmation user])
                       else (Inl Mail_delivery_error,
                             effs @ [Send_mail Purchase_confirmation user]))))"

definition exchange_refund ::
  "env \<Rightarrow> db \<Rightarrow> pk \<Rightarrow> pk \<times> order_line \<Rightarrow> pk \<times> retreat \<Rightarrow> pk \<times> retreat \<Rightarrow> rat
     \<Rightarrow> (error + db) \<times> effect list" where
  \<comment> \<open>lines 561-639, the branch \<^verbatim>\<open>need_refund\<close>\<close>
  "exchange_refund e d user old_line cur new amount =
     (let amount' = round2 (amount * (TAX_RATE e + 1) * 100)
      in if \<not> has_place d user new then (Inl (ValidationError No_places_left), [])
         else
           (let d1 = delete_user_waiting d user (fst new)
            in case get_row (orders d1) (ol_order (snd old_line)) of
                 None \<Rightarrow> (Inl DoesNotExist, [])
               | Some order \<Rightarrow>
                  (let call = Refund_amount (settlement_id order) (of_int (int_of_decimal amount'))
                   in case refund_res e of
                        Inl err \<Rightarrow>
                          (if err = PAYSAFE_EXCEPTION_3406
                           then (Inl (ValidationError Order_not_charged_yet), [call])
                           else (Inl (ValidationError (Payment_message err)), [call]))
                      | Inr _ \<Rightarrow>
                          (let d2 = d1\<lparr>refunds := create_row (refunds d1)
                                         \<lparr>refund_orderline = fst old_line, refund_date = now e,
                                          rf_amount = amount' / 100,
                                          details = Exchange_retirement (fst cur) (fst new)\<rparr>\<rparr>
                           in if mail_ok e
                              then (Inr d2, [call, Send_mail Refund_confirmation user])
                              else (Inl Mail_delivery_error,
                                    [call, Send_mail Refund_confirmation user])))))"

definition apply_attrs :: "attrs \<Rightarrow> reservation \<Rightarrow> reservation" where
  \<comment> \<open>\<^verbatim>\<open>ModelSerializer.update\<close>: every given field is set on the instance\<close>
  "apply_attrs a r =
     \<lparr>res_user = (case a_user a of None \<Rightarrow> res_user r | Some v \<Rightarrow> v),
      res_retreat = (case a_retirement a of None \<Rightarrow> res_retreat r | Some v \<Rightarrow> v),
      res_order_line = (case a_order_line a of None \<Rightarrow> res_order_line r | Some v \<Rightarrow> v),
      is_active = (case a_is_active a of None \<Rightarrow> is_active r | Some v \<Rightarrow> v),
      is_present = (case a_is_present a of None \<Rightarrow> is_present r | Some v \<Rightarrow> v),
      cancelation_date =
        (case a_cancelation_date a of None \<Rightarrow> cancelation_date r | Some v \<Rightarrow> v),
      cancelation_reason =
        (case a_cancelation_reason a of None \<Rightarrow> cancelation_reason r | Some v \<Rightarrow> v),
      cancelation_action =
        (case a_cancelation_action a of None \<Rightarrow> cancelation_action r | Some v \<Rightarrow> v)\<rparr>"

definition finish_exchange ::
  "env \<Rightarrow> db \<Rightarrow> pk \<times> reservation \<Rightarrow> attrs \<Rightarrow> (error + db) \<times> effect list" where
  \<comment> \<open>lines 641-709: the copy that keeps track of the exchange, the update of the
      instance, the confirmation mails\<close>
  "finish_exchange e d inst validated_data =
     (let user = res_user (snd inst);
          canceled_pk = next_pk (reservations d);
          d1 = d\<lparr>reservations := create_row (reservations d) (snd inst)\<rparr>
      in case get_row (reservations d1) (fst inst) of
           None \<Rightarrow> (Inl DoesNotExist, [])
         | Some instance \<Rightarrow>
            (let d2 = d1\<lparr>reservations := save_row (reservations d1) (fst inst)
                           (apply_attrs validated_data instance)\<rparr>
             in if \<not> mail_ok e then (Inl Mail_delivery_error, [Send_mail Exchange_confirmation user])
                else
                  (let canceled_reservation =
                         (snd inst)\<lparr>is_active := False, cancelation_reason := Some ''U'',
                                    cancelation_action := Some ''E'',
                                    cancelation_date := Some (now e)\<rparr>;
                       d3 = d2\<lparr>reservations :=
                                 save_row (reservations d2) canceled_pk canceled_reservation\<rparr>
                   in (Inr d3, [Send_mail Exchange_confirmation user,
                                Send_mail Registration_confirmation user]))))"

definition exchange ::
  "env \<Rightarrow> db \<Rightarrow> pk \<times> reservation \<Rightarrow> attrs \<Rightarrow> pk \<Rightarrow> string option option
     \<Rightarrow> string option option \<Rightarrow> (error + db) \<times> effect list" where
  \<comment> \<open>lines 341-646 and 653-707: the partial update that names a retirement\<close>
  "exchange e d inst validated_data new_id payment_token single_use_token =
     (let user = res_user (snd inst) in
      case get_row (retreats d) new_id of
        None \<Rightarrow> (Inl (ValidationError Object_does_not_exist), [])
      | Some new_ev \<Rightarrow>
     (case res_order_line (snd inst) of
        None \<Rightarrow> (Inl AttributeError, [])
      | Some ol \<Rightarrow>
     (case get_row (order_lines d) ol of
        None \<Rightarrow> (Inl DoesNotExist, [])
      | Some line \<Rightarrow>
        if quantity line > 1
        then (Inl (ValidationError Quantity_bigger_than_1_contact_support), [])
        else
     (case get_row (retreats d) (res_retreat (snd inst)) of
        None \<Rightarrow> (Inl DoesNotExist, [])
      | Some cur_ev \<Rightarrow>
     (let cur = (res_retreat (snd inst), cur_ev); new = (new_id, new_ev) in
      case exchange_checks e cur new payment_token single_use_token of
        Inl err \<Rightarrow> (Inl err, [])
      | Inr (need_transaction, need_refund, amount) \<Rightarrow>
     (case ensure_profile e d user single_use_token need_transaction of
        (Inl err, effs1) \<Rightarrow> (Inl err, effs1)
      | (Inr (d1, profile), effs1) \<Rightarrow>
        if overlaps
             (reservation_times d1 (\<lambda>(k, r). res_user r = user \<and> is_active r \<and> k \<noteq> fst inst))
             (start_time new_ev) (end_time new_ev)
        then (Inl (ValidationError Overlaps_with_another_active_reservation), effs1)
        else
     (case (if need_transaction
            then (case exchange_charge e d1 user ol cur new amount payment_token
                         single_use_token profile of
                    (Inl err, effs) \<Rightarrow> (Inl err, effs)
                  | (Inr (d', orderline), effs) \<Rightarrow>
                      (Inr (d', validated_data\<lparr>a_order_line := Some (Some orderline)\<rparr>), effs))
            else (Inr (d1, validated_data), [])) of
        (Inl err, effs2) \<Rightarrow> (Inl err, effs1 @ effs2)
      | (Inr (d2, validated_data'), effs2) \<Rightarrow>
     (case (if need_refund then exchange_refund e d2 user (ol, line) cur new amount
            else (Inr d2, [])) of
        (Inl err, effs3) \<Rightarrow> (Inl err, effs1 @ effs2 @ effs3)
      | (Inr d3, effs3) \<Rightarrow>
     (case finish_exchange e d3 inst validated_data' of
        (Inl err, effs4) \<Rightarrow> (Inl err, effs1 @ effs2 @ effs3 @ effs4)
      | (Inr d4, effs4) \<Rightarrow> (Inr d4, effs1 @ effs2 @ effs3 @ effs4))))))))))"

definition update ::
  "env \<Rightarrow> db \<Rightarrow> bool \<Rightarrow> pk \<times> reservation \<Rightarrow> attrs
     \<Rightarrow> (error + reservation) \<times> db \<times> effect list" where
  \<comment> \<open>\<^verbatim>\<open>update(self, instance, validated_data)\<close> under \<^verbatim>\<open>@transaction.atomic\<close>, called
      for the action \<^verbatim>\<open>partial_update\<close> (the view refuses the action \<^verbatim>\<open>update\<close>); the
      boolean is \<^verbatim>\<open>request.user.is_staff\<close>. An exception rolls the database back.\<close>
  "update e d staff inst validated_data =
     (let payment_token = a_payment_token validated_data;
          single_use_token = a_single_use_token validated_data;
          validated_data1 = validated_data\<lparr>a_payment_token := None, a_single_use_token := None\<rparr>;
          validated_data2 = (if \<not> staff then validated_data1\<lparr>a_is_present := None\<rparr>
                             else validated_data1)
      in case (case a_retirement validated_data2 of
                 Some new_id \<Rightarrow>
                   exchange e d inst validated_data2 new_id payment_token single_use_token
               | None \<Rightarrow>
                   (Inr (d\<lparr>reservations := save_row (reservations d) (fst inst)
                              (apply_attrs validated_data2 (snd inst))\<rparr>), [])) of
           (Inl err, effs) \<Rightarrow> (Inl err, d, effs)
         | (Inr d', effs) \<Rightarrow>
             (case get_row (reservations d') (fst inst) of
                None \<Rightarrow> (Inl DoesNotExist, d, effs)
              | Some r \<Rightarrow> (Inr r, d', effs)))"

fun is_gateway_charge :: "effect \<Rightarrow> bool" where
  "is_gateway_charge (Charge_payment _ _ _) = True"
| "is_gateway_charge _ = False"

fun is_gateway_refund :: "effect \<Rightarrow> bool" where
  "is_gateway_refund (Refund_amount _ _) = True"
| "is_gateway_refund _ = False"

section \<open>Sample states\<close>

text \<open>
  A small database used to run the operations on concrete inputs: one retreat of two
  seats that starts in a hundred days, and one active reservation of user 1 paid
  through order line 1 of order 1.
\<close>

definition env0 :: env where
  "env0 = \<lparr>TAX_RATE = 3 / 20, RETREAT_NOTIFICATION_LIFETIME_DAYS = 30, now = 0,
            create_profile_res = Inr ''profile-1'', create_card_res = Inr ''card-token'',
            charge_res = Inr \<lparr>charge_id = ''auth-7'', charge_settlement_id = ''settle-7'',
                               merchantRefNum = ''751''\<rparr>,
            refund_res = Inr (), mail_ok = True\<rparr>"

definition retreat_A :: retreat where
  "retreat_A = \<lparr>seats = 2, reserved_seats = 0, price = 199,
                 start_time = timedelta 100 0 0, end_time = timedelta 102 0 0,
                 min_day_refund = 7, min_day_exchange = 7, refund_rate = 50,
                 next_user_notified = 0, retreat_is_active = True, hidden = False\<rparr>"

definition reservation_1 :: reservation where
  "reservation_1 = \<lparr>res_user = 1, res_retreat = 1, res_order_line = Some 1, is_active = True,
                     is_present = False, cancelation_date = None, cancelation_reason = None,
                     cancelation_action = None\<rparr>"

definition line_1 :: order_line where
  "line_1 = \<lparr>ol_order = 1, quantity = 1, object_id = 1, cost = Some 199\<rparr>"

definition order_1 :: order_row where
  "order_1 = \<lparr>order_user = 1, transaction_date = 0, authorization_id = ''1'',
               settlement_id = ''1'', reference_number = ''751''\<rparr>"

definition db_A :: db where
  "db_A = \<lparr>retreats = [(1, retreat_A)], reservations = [(1, reservation_1)],
            order_lines = [(1, line_1)], orders = [(1, order_1)], refunds = [],
            wait_queues = [], wait_queue_notifications = [], payment_profiles = []\<rparr>"

definition user_1 :: request_user where
  "user_1 = \<lparr>user_id = 1, is_staff = False\<rparr>"

definition db_quantity_2 :: db where
  \<comment> \<open>the same, bought in an order line of two units\<close>
  "db_quantity_2 = db_A\<lparr>order_lines := [(1, line_1\<lparr>quantity := 2\<rparr>)]\<rparr>"

definition db_canceled :: db where
  \<comment> \<open>the same, after the reservation was canceled without refund\<close>
  "db_canceled = db_A\<lparr>reservations :=
      [(1, reservation_1\<lparr>is_active := False, cancelation_reason := Some ''U'',
                          cancelation_action := Some ''N'', cancelation_date := Some 0\<rparr>)]\<rparr>"

definition db_one_seat :: db where
  \<comment> \<open>the retreat has a single seat, taken by the reservation\<close>
  "db_one_seat = db_A\<lparr>retreats := [(1, retreat_A\<lparr>seats := 1\<rparr>)]\<rparr>"

definition env_later :: env where
  "env_later = env0\<lparr>now := timedelta 200 0 0\<rparr>"

definition db_notified :: db where
  \<comment> \<open>users 2 and 3 wait for retreat 1; user 2 was notified a hundred days before
      \<^verbatim>\<open>env_later\<close>, user 3 one hour before\<close>
  "db_notified = db_A\<lparr>
       wait_queues := [(1, \<lparr>wq_user = 2, wq_retreat = 1, wq_created_at = 5\<rparr>),
                       (2, \<lparr>wq_user = 3, wq_retreat = 1, wq_created_at = 7\<rparr>)],
       wait_queue_notifications :=
         [(1, \<lparr>wqn_user = 2, wqn_retreat = 1, wqn_created_at = timedelta 100 0 0\<rparr>),
          (2, \<lparr>wqn_user = 3, wqn_retreat = 1, wqn_created_at = timedelta 199 23 0\<rparr>)]\<rparr>"

definition db_queue :: db where
  \<comment> \<open>two retreats; the entries of retreat 1 are pk 1 (user 2, subscribed at 9) and pk 3
      (user 4, subscribed at 4), so its queue is pk 3, then pk 1; the cursor of retreat 1
      is past the first entry of the queue\<close>
  "db_queue = db_A\<lparr>
       retreats := [(1, retreat_A\<lparr>next_user_notified := 1\<rparr>),
                    (2, retreat_A\<lparr>start_time := timedelta 110 0 0,
                                   end_time := timedelta 112 0 0\<rparr>)],
       wait_queues := [(1, \<lparr>wq_user = 2, wq_retreat = 1, wq_created_at = 9\<rparr>),
                       (2, \<lparr>wq_user = 3, wq_retreat = 2, wq_created_at = 1\<rparr>),
                       (3, \<lparr>wq_user = 4, wq_retreat = 1, wq_created_at = 4\<rparr>)],
       wait_queue_notifications :=
         [(1, \<lparr>wqn_user = 4, wqn_retreat = 1, wqn_created_at = 20\<rparr>),
          (2, \<lparr>wqn_user = 2, wqn_retreat = 2, wqn_created_at = 21\<rparr>)]\<rparr>"

definition user_4 :: request_user where
  "user_4 = \<lparr>user_id = 4, is_staff = False\<rparr>"

definition user_2 :: request_user where
  "user_2 = \<lparr>user_id = 2, is_staff = False\<rparr>"

definition retreat_B :: retreat where
  \<comment> \<open>a later retreat of the same price, full\<close>
  "retreat_B = retreat_A\<lparr>seats := 0, start_time := timedelta 110 0 0,
                          end_time := timedelta 112 0 0\<rparr>"

definition retreat_C :: retreat where
  \<comment> \<open>a cheaper one, full, with one seat reserved for the wait queue\<close>
  "retreat_C = retreat_B\<lparr>price := 100, reserved_seats := 1\<rparr>"

definition retreat_D :: retreat where
  \<comment> \<open>a more expensive one with free seats\<close>
  "retreat_D = retreat_B\<lparr>price := 250, seats := 2\<rparr>"

definition db_exchange :: db where
  \<comment> \<open>user 1 waits for retreat 3 and was notified of its reserved seat\<close>
  "db_exchange = db_A\<lparr>
      retreats := [(1, retreat_A), (2, retreat_B), (3, retreat_C), (4, retreat_D)],
      wait_queues := [(1, \<lparr>wq_user = 1, wq_retreat = 3, wq_created_at = 5\<rparr>)],
      wait_queue_notifications :=
        [(1, \<lparr>wqn_user = 1, wqn_retreat = 3, wqn_created_at = - 10\<rparr>)]\<rparr>"

definition no_attrs :: attrs where
  "no_attrs = \<lparr>a_user = None, a_retirement = None, a_order_line = None, a_is_active = None,
     a_is_present = None, a_cancelation_date = None, a_cancelation_reason = None,
     a_cancelation_action = None, a_payment_token = None, a_single_use_token = None\<rparr>"

definition duplicate_attrs :: attrs where
  \<comment> \<open>a second reservation of retreat 1 for user 1, on the same order line\<close>
  "duplicate_attrs = no_attrs\<lparr>a_user := Some 1, a_retirement := Some 1,
                               a_order_line := Some (Some 1), a_is_active := Some True\<rparr>"

definition pricier_attrs :: attrs where
  "pricier_attrs = no_attrs\<lparr>a_retirement := Some 4, a_payment_token := Some (Some ''tok'')\<rparr>"

definition cents :: "env \<Rightarrow> rat \<Rightarrow> int" where
  \<comment> \<open>an amount plus proportional tax, in integer cents\<close>
  "cents e diff = int_of_decimal (round2 ((diff + diff * TAX_RATE e) * 100))"

definition pk_unique :: "'a table \<Rightarrow> bool" where
  "pk_unique t = distinct (map fst t)"

section \<open>Properties\<close>

lemma card_filter_pks:
  "distinct (map fst t) \<Longrightarrow> card {k. \<exists>r. (k, r) \<in> set t \<and> P r} = length (filter (\<lambda>(k, r). P r) t)"
proof (induction t)
  case Nil
  then show ?case by simp
next
  case (Cons a t)
  obtain k r where a: "a = (k, r)" by (cases a)
  from Cons.prems a have nk: "\<And>r'. (k, r') \<notin> set t" and dt: "distinct (map fst t)"
    by (auto simp: rev_image_eqI)
  have fin: "finite {k'. \<exists>r'. (k', r') \<in> set t \<and> P r'}"
    by (rule finite_subset [of _ "fst ` set t"]) (auto simp: rev_image_eqI)
  show ?case
  proof (cases "P r")
    case True
    have "{k'. \<exists>r'. (k', r') \<in> set (a # t) \<and> P r'} = insert k {k'. \<exists>r'. (k', r') \<in> set t \<and> P r'}"
      using a True by auto
    moreover have "k \<notin> {k'. \<exists>r'. (k', r') \<in> set t \<and> P r'}" using nk by auto
    ultimately show ?thesis using fin Cons.IH [OF dt] a True by simp
  next
    case False
    have "{k'. \<exists>r'. (k', r') \<in> set (a # t) \<and> P r'} = {k'. \<exists>r'. (k', r') \<in> set t \<and> P r'}"
      using a False nk by auto
    then show ?thesis using Cons.IH [OF dt] a False by simp
  qed
qed

text \<open>
  C8. For every event, the reported places_remaining is seats minus the number of
  active reservations of that event minus reserved_seats. The number of active
  reservations is the number of distinct reservation keys whose row is active and
  points to the event (primary keys are unique).
\<close>

theorem places_remaining_formula:
  assumes "pk_unique (reservations d)"
  shows "get_places_remaining d (rid, ev) =
           seats ev
           - int (card {k. \<exists>r. (k, r) \<in> set (reservations d) \<and> res_retreat r = rid \<and> is_active r})
           - reserved_seats ev"
  using card_filter_pks [of "reservations d" "\<lambda>r. res_retreat r = rid \<and> is_active r"] assms
  by (simp add: get_places_remaining_def active_reservations_count_def pk_unique_def)

theorem places_remaining_formula_witness:
  "pk_unique (reservations db_A)
   \<and> get_places_remaining db_A (1, retreat_A) =
       seats retreat_A
       - int (card {k. \<exists>r. (k, r) \<in> set (reservations db_A) \<and> res_retreat r = 1 \<and> is_active r})
       - reserved_seats retreat_A"
proof -
  have u: "pk_unique (reservations db_A)" by (simp add: pk_unique_def db_A_def)
  from places_remaining_formula [OF u, of 1 retreat_A] u show ?thesis by simp
qed

subsection \<open>Cancellation: \<^verbatim>\<open>ReservationViewSet.destroy\<close>\<close>


lemma get_row_save_row:
  "get_row (save_row t k row) k' = (if k' = k then map_option (\<lambda>_. row) (get_row t k) else get_row t k')"
  by (induction t) (auto simp: get_row_def save_row_def)

lemma destroy_inactive:
  assumes "get_object_reservation d u k = Inr r" and "\<not> is_active r"
    and "get_row (retreats d) (res_retreat r) = Some ev"
    and "line_and_order d (res_order_line r) = Inr lo"
  shows "destroy e d u k = (Inr HTTP_204_NO_CONTENT, d, [])"
  using assms by (simp add: destroy_def)

lemma cancel_refund_tables:
  assumes "cancel_refund e d ev lo a b = (Inr (d1, action), effs)"
  shows "reservations d1 = reservations d \<and> retreats d1 = retreats d
         \<and> order_lines d1 = order_lines d \<and> orders d1 = orders d"
  using assms
  by (auto simp: cancel_refund_def make_refund_def Let_def split: if_splits option.splits sum.splits prod.splits)

lemma line_and_order_cong:
  "order_lines d' = order_lines d \<Longrightarrow> orders d' = orders d \<Longrightarrow> line_and_order d' ol = line_and_order d ol"
  by (simp add: line_and_order_def split: option.splits)

lemma get_object_reservation_Inr:
  "get_object_reservation d u k = Inr r \<longleftrightarrow>
     get_row (reservations d) k = Some r \<and> (is_staff u \<or> res_user r = user_id u)"
  by (auto simp: get_object_reservation_def split: option.splits)

lemma destroy_after_success:
  assumes "destroy e d u k = (Inr resp, d', effs)"
  shows "destroy e' d' u k = (Inr HTTP_204_NO_CONTENT, d', [])"
proof -
  from assms obtain r where r: "get_object_reservation d u k = Inr r"
    by (auto simp: destroy_def split: sum.splits)
  from assms r obtain ev where ev: "get_row (retreats d) (res_retreat r) = Some ev"
    by (auto simp: destroy_def split: option.splits)
  from assms r ev obtain lo where lo: "line_and_order d (res_order_line r) = Inr lo"
    by (auto simp: destroy_def split: sum.splits)
  show ?thesis
  proof (cases "is_active r")
    case False
    with assms r ev lo have "d' = d" by (simp add: destroy_def)
    with destroy_inactive [OF r False ev lo] show ?thesis by simp
  next
    case True
    let ?resp = "start_time ev - now e \<ge> timedelta (min_day_refund ev) 0 0"
    let ?rf = "(case lo of None \<Rightarrow> False | Some (l, order) \<Rightarrow> refundable d l)"
    from assms r ev lo True obtain d1 action effs1 where
      cr: "cancel_refund e d ev lo ?resp ?rf = (Inr (d1, action), effs1)"
      by (auto simp: destroy_def Let_def split: if_splits prod.splits sum.splits)
    note tabs = cancel_refund_tables [OF cr]
    let ?r' = "r\<lparr>cancelation_action := Some action, is_active := False,
                  cancelation_reason := Some ''U'', cancelation_date := Some (now e)\<rparr>"
    from assms r ev lo True cr have
      res': "reservations d' = save_row (reservations d) k ?r'" and
      ret': "\<exists>ev'. retreats d' = save_row (retreats d) (res_retreat r) ev'" and
      ol': "order_lines d' = order_lines d" and o': "orders d' = orders d"
      using tabs by (auto simp: destroy_def Let_def split: if_splits)
    from r have gr: "get_row (reservations d) k = Some r" and own: "is_staff u \<or> res_user r = user_id u"
      by (simp_all add: get_object_reservation_Inr)
    have r2: "get_object_reservation d' u k = Inr ?r'"
      using gr own res' by (simp add: get_object_reservation_Inr get_row_save_row)
    from ret' ev obtain ev' where ev2: "get_row (retreats d') (res_retreat ?r') = Some ev'"
      by (auto simp: get_row_save_row)
    have lo2: "line_and_order d' (res_order_line ?r') = Inr lo"
      using lo line_and_order_cong [OF ol' o'] by simp
    show ?thesis by (rule destroy_inactive [OF r2 _ ev2 lo2]) simp
  qed
qed

lemma cancel_refund_N:
  "\<not> (a \<and> b) \<Longrightarrow> cancel_refund e d ev lo a b = (Inr (d, ''N''), [])"
  by (auto simp: cancel_refund_def)

lemma cancel_refund_R:
  assumes "a" "b" "lo = Some (l, order)" "refund_res e = Inr ()"
  shows "\<exists>d'. cancel_refund e d ev lo a b =
           (Inr (d', ''R''), [Refund_amount (settlement_id order) (refund_value e ev (snd l) * 100)])
         \<and> reservations d' = reservations d \<and> retreats d' = retreats d"
  using assms by (simp add: cancel_refund_def make_refund_def Let_def)

lemma destroy_active:
  assumes r: "get_object_reservation d u k = Inr r" and act: "is_active r"
    and ev: "get_row (retreats d) (res_retreat r) = Some ev"
    and lo: "line_and_order d (res_order_line r) = Inr lo"
    and q: "\<not> (case lo of None \<Rightarrow> False | Some ((_, line), _) \<Rightarrow> quantity line > 1)"
    and cr: "cancel_refund e d ev lo (start_time ev - now e \<ge> timedelta (min_day_refund ev) 0 0)
               (case lo of None \<Rightarrow> False | Some (l, order) \<Rightarrow> refundable d l) = (Inr (d1, action), effs1)"
  shows "\<exists>resp effs2.
     destroy e d u k =
       (resp,
        d1\<lparr>reservations := save_row (reservations d1) k
              (r\<lparr>cancelation_action := Some action, is_active := False,
                 cancelation_reason := Some ''U'', cancelation_date := Some (now e)\<rparr>),
           retreats := save_row (retreats d1) (res_retreat r)
              (if reserved_seats ev \<noteq> 0 \<or>
                  places_remaining (d1\<lparr>reservations := save_row (reservations d1) k
                     (r\<lparr>cancelation_action := Some action, is_active := False,
                        cancelation_reason := Some ''U'', cancelation_date := Some (now e)\<rparr>)\<rparr>)
                    (res_retreat r, ev) = 1
               then ev\<lparr>reserved_seats := reserved_seats ev + 1\<rparr> else ev)\<rparr>,
        effs1 @ Notify_scheduler_waite_queue (res_retreat r) # effs2)
     \<and> (\<forall>x \<in> set effs2. \<not> is_gateway_refund x)
     \<and> (resp = Inr HTTP_204_NO_CONTENT \<or> resp = Inl Mail_delivery_error)"
  using r act ev lo q cr by (simp add: destroy_def Let_def)

text \<open>
  C3, as amended. Canceling an active reservation whose order line, if it has one, has
  a quantity of at most 1, with a payment gateway that accepts refunds, soft-cancels
  it: \<open>is_active = False\<close>, \<open>cancelation_reason = 'U'\<close>, \<open>cancelation_date\<close> the
  current time. If the cancellation happens at least \<open>min_day_refund\<close> days before the
  event's \<open>start_time\<close> and the order line is refundable (quantity 1, not already
  refunded), exactly one gateway refund is issued, of \<open>refund_rate\<close> percent of the
  paid price plus proportional tax, and \<open>cancelation_action\<close> is \<open>'R'\<close>; in every
  other case \<open>cancelation_action\<close> is \<open>'N'\<close> and the gateway refund operation is not
  called.
\<close>

theorem cancel_soft_cancels_and_refunds:
  assumes r: "get_object_reservation d u k = Inr r" and act: "is_active r"
    and ev: "get_row (retreats d) (res_retreat r) = Some ev"
    and lo: "line_and_order d (res_order_line r) = Inr lo"
    and q: "\<forall>l order. lo = Some (l, order) \<longrightarrow> quantity (snd l) \<le> 1"
    and gw: "refund_res e = Inr ()"
  shows "\<exists>resp d' effs.
     destroy e d u k = (resp, d', effs)
     \<and> (let due = (start_time ev - now e \<ge> timedelta (min_day_refund ev) 0 0
                    \<and> (\<exists>l order. lo = Some (l, order) \<and> quantity (snd l) = 1
                          \<and> \<not> list_ex (\<lambda>(k, rf). refund_orderline rf = fst l) (refunds d)))
        in get_row (reservations d') k =
             Some (r\<lparr>is_active := False, cancelation_reason := Some ''U'',
                     cancelation_date := Some (now e),
                     cancelation_action := Some (if due then ''R'' else ''N'')\<rparr>)
           \<and> filter is_gateway_refund effs =
               (case lo of
                  None \<Rightarrow> []
                | Some (l, order) \<Rightarrow>
                    if due
                    then [Refund_amount (settlement_id order)
                            ((case cost (snd l) of None \<Rightarrow> 0 | Some c \<Rightarrow> c)
                               * of_int (refund_rate ev) / 100 * (1 + TAX_RATE e) * 100)]
                    else []))"
proof -
  let ?a = "start_time ev - now e \<ge> timedelta (min_day_refund ev) 0 0"
  let ?b = "(case lo of None \<Rightarrow> False | Some (l, order) \<Rightarrow> refundable d l)"
  define due where "due \<longleftrightarrow> ?a \<and> (\<exists>l order. lo = Some (l, order) \<and> quantity (snd l) = 1
                          \<and> \<not> list_ex (\<lambda>(k, rf). refund_orderline rf = fst l) (refunds d))"
  have due: "due \<longleftrightarrow> ?a \<and> ?b"
    by (auto simp: due_def refundable_def split: option.splits)
  from q have q': "\<not> (case lo of None \<Rightarrow> False | Some ((_, line), _) \<Rightarrow> quantity line > 1)"
    by (auto split: option.splits)
  from r have gr: "get_row (reservations d) k = Some r" by (simp add: get_object_reservation_Inr)
  show ?thesis
  proof (cases "?a \<and> ?b")
    case False
    then have cr: "cancel_refund e d ev lo ?a ?b = (Inr (d, ''N''), [])"
      by (rule cancel_refund_N)
    from destroy_active [OF r act ev lo q' cr] obtain resp effs2 d' where
      D: "destroy e d u k = (resp, d', Notify_scheduler_waite_queue (res_retreat r) # effs2)"
      and R: "reservations d' = save_row (reservations d) k
              (r\<lparr>cancelation_action := Some ''N'', is_active := False,
                 cancelation_reason := Some ''U'', cancelation_date := Some (now e)\<rparr>)"
      and E: "\<forall>x \<in> set effs2. \<not> is_gateway_refund x"
      by auto
    from E have F: "filter is_gateway_refund effs2 = []" by (simp add: filter_empty_conv)
    from False due have nd: "\<not> due" by simp
    show ?thesis unfolding Let_def due_def [symmetric] using D R F gr nd
      by (simp add: get_row_save_row split: option.splits)
  next
    case True
    then obtain l order where L: "lo = Some (l, order)" by (auto split: option.splits)
    from True have a: ?a and b: ?b by simp_all
    from cancel_refund_R [OF a b L gw] obtain d1 where
      cr: "cancel_refund e d ev lo ?a ?b =
           (Inr (d1, ''R''), [Refund_amount (settlement_id order) (refund_value e ev (snd l) * 100)])"
      and T: "reservations d1 = reservations d"
      by blast
    from destroy_active [OF r act ev lo q' cr] obtain resp effs2 d' where
      D: "destroy e d u k = (resp, d', [Refund_amount (settlement_id order) (refund_value e ev (snd l) * 100)]
             @ Notify_scheduler_waite_queue (res_retreat r) # effs2)"
      and R: "reservations d' = save_row (reservations d1) k
              (r\<lparr>cancelation_action := Some ''R'', is_active := False,
                 cancelation_reason := Some ''U'', cancelation_date := Some (now e)\<rparr>)"
      and E: "\<forall>x \<in> set effs2. \<not> is_gateway_refund x"
      by auto
    from E have F: "filter is_gateway_refund effs2 = []" by (simp add: filter_empty_conv)
    have V: "refund_value e ev (snd l) * 100 =
             (case cost (snd l) of None \<Rightarrow> 0 | Some c \<Rightarrow> c)
                               * of_int (refund_rate ev) / 100 * (1 + TAX_RATE e) * 100"
      by (simp add: refund_value_def Let_def algebra_simps)
    from True due have yd: "due" by simp
    show ?thesis unfolding Let_def due_def [symmetric] using D R F gr yd T L V
      by (simp add: get_row_save_row)
  qed
qed

text \<open>
  C7. After every successful user cancellation of an active reservation, the event's
  \<open>reserved_seats\<close> (never negative) is incremented by exactly one if the event
  already had \<open>reserved_seats > 0\<close> or the cancellation leaves exactly one place
  remaining, and is left unchanged otherwise; the wait-queue promotion check is then
  triggered.
\<close>

theorem cancel_reevaluates_reserved_seats:
  assumes D: "destroy e d u k = (Inr resp, d', effs)"
    and r: "get_object_reservation d u k = Inr r" and act: "is_active r"
    and ev: "get_row (retreats d) (res_retreat r) = Some ev"
    and nn: "0 \<le> reserved_seats ev"
  shows "get_row (retreats d') (res_retreat r) =
           Some (ev\<lparr>reserved_seats :=
                      (if 0 < reserved_seats ev
                          \<or> seats ev - active_reservations_count d' (res_retreat r)
                              - reserved_seats ev = 1
                       then reserved_seats ev + 1 else reserved_seats ev)\<rparr>)
         \<and> Notify_scheduler_waite_queue (res_retreat r) \<in> set effs"
proof -
  from D r ev obtain lo where lo: "line_and_order d (res_order_line r) = Inr lo"
    by (auto simp: destroy_def split: sum.splits)
  let ?a = "start_time ev - now e \<ge> timedelta (min_day_refund ev) 0 0"
  let ?b = "(case lo of None \<Rightarrow> False | Some (l, order) \<Rightarrow> refundable d l)"
  from D r ev lo act have q: "\<not> (case lo of None \<Rightarrow> False | Some ((_, line), _) \<Rightarrow> quantity line > 1)"
    by (auto simp: destroy_def Let_def split: if_splits)
  from D r ev lo act q obtain d1 action effs1 where
      cr: "cancel_refund e d ev lo ?a ?b = (Inr (d1, action), effs1)"
    by (auto simp: destroy_def Let_def split: if_splits prod.splits sum.splits)
  note T = cancel_refund_tables [OF cr]
  from destroy_active [OF r act ev lo q cr] D obtain effs2 where
    d': "d' = d1\<lparr>reservations := save_row (reservations d1) k
              (r\<lparr>cancelation_action := Some action, is_active := False,
                 cancelation_reason := Some ''U'', cancelation_date := Some (now e)\<rparr>),
           retreats := save_row (retreats d1) (res_retreat r)
              (if reserved_seats ev \<noteq> 0 \<or>
                  places_remaining (d1\<lparr>reservations := save_row (reservations d1) k
                     (r\<lparr>cancelation_action := Some action, is_active := False,
                        cancelation_reason := Some ''U'', cancelation_date := Some (now e)\<rparr>)\<rparr>)
                    (res_retreat r, ev) = 1
               then ev\<lparr>reserved_seats := reserved_seats ev + 1\<rparr> else ev)\<rparr>"
    and effs: "effs = effs1 @ Notify_scheduler_waite_queue (res_retreat r) # effs2"
    by auto
  have cnt: "active_reservations_count d' (res_retreat r) =
             active_reservations_count (d1\<lparr>reservations := save_row (reservations d1) k
                     (r\<lparr>cancelation_action := Some action, is_active := False,
                        cancelation_reason := Some ''U'', cancelation_date := Some (now e)\<rparr>)\<rparr>) (res_retreat r)"
    by (simp add: d' active_reservations_count_def)
  from nn have pos: "reserved_seats ev \<noteq> 0 \<longleftrightarrow> 0 < reserved_seats ev" by auto
  have "get_row (retreats d') (res_retreat r) = Some (if reserved_seats ev \<noteq> 0 \<or>
                  places_remaining (d1\<lparr>reservations := save_row (reservations d1) k
                     (r\<lparr>cancelation_action := Some action, is_active := False,
                        cancelation_reason := Some ''U'', cancelation_date := Some (now e)\<rparr>)\<rparr>)
                    (res_retreat r, ev) = 1
               then ev\<lparr>reserved_seats := reserved_seats ev + 1\<rparr> else ev)"
    using ev T by (simp add: d' get_row_save_row)
  then show ?thesis using effs cnt pos
    by (auto simp: places_remaining_def)
qed


lemmas sample_defs = env0_def retreat_A_def reservation_1_def line_1_def order_1_def db_A_def
  user_1_def db_quantity_2_def db_canceled_def

lemmas destroy_eval = destroy_def get_object_reservation_def get_row_def line_and_order_def
  refundable_def cancel_refund_def make_refund_def refund_value_def timedelta_def
  places_remaining_def active_reservations_count_def save_row_def create_row_def Let_def

text \<open>
  The claim C3 as first stated (every cancellation of an active reservation
  soft-cancels it) fails for a reservation bought in an order line of two units: the
  cancellation is refused and the reservation stays active.
\<close>

theorem cancel_quantity_2_counterexample:
  "get_object_reservation db_quantity_2 user_1 1 = Inr reservation_1
  \<and> is_active reservation_1
  \<and> destroy env0 db_quantity_2 user_1 1 =
      (Inl (ValidationError Quantity_bigger_than_1_contact_support), db_quantity_2, [])"
  by (simp add: sample_defs destroy_eval)

lemma destroy_committed:
  assumes "destroy e d u k = (res, d', effs)"
  shows "d' = d \<or> destroy e' d' u k = (Inr HTTP_204_NO_CONTENT, d', [])"
proof (cases res)
  case (Inr resp)
  with assms destroy_after_success show ?thesis by blast
next
  case (Inl err)
  show ?thesis
  proof (cases "d' = d")
    case True then show ?thesis by simp
  next
    case False
    from assms False obtain r where r: "get_object_reservation d u k = Inr r"
      by (auto simp: destroy_def split: sum.splits)
    from assms False r obtain ev where ev: "get_row (retreats d) (res_retreat r) = Some ev"
      by (auto simp: destroy_def split: option.splits)
    from assms False r ev obtain lo where lo: "line_and_order d (res_order_line r) = Inr lo"
      by (auto simp: destroy_def split: sum.splits)
    from assms False r ev lo have act: "is_active r"
      by (auto simp: destroy_def Let_def split: if_splits)
    from assms False r ev lo act have
      q: "\<not> (case lo of None \<Rightarrow> False | Some ((_, line), _) \<Rightarrow> quantity line > 1)"
      by (auto simp: destroy_def Let_def split: if_splits)
    let ?a = "start_time ev - now e \<ge> timedelta (min_day_refund ev) 0 0"
    let ?b = "(case lo of None \<Rightarrow> False | Some (l, order) \<Rightarrow> refundable d l)"
    from assms False r ev lo act q obtain d1 action effs1 where
      cr: "cancel_refund e d ev lo ?a ?b = (Inr (d1, action), effs1)"
      by (auto simp: destroy_def Let_def split: if_splits prod.splits sum.splits)
    note T = cancel_refund_tables [OF cr]
    let ?r' = "r\<lparr>cancelation_action := Some action, is_active := False,
                  cancelation_reason := Some ''U'', cancelation_date := Some (now e)\<rparr>"
    from destroy_active [OF r act ev lo q cr] assms have
      res': "reservations d' = save_row (reservations d) k ?r'" and
      ret': "\<exists>ev'. retreats d' = save_row (retreats d) (res_retreat r) ev'" and
      ol': "order_lines d' = order_lines d" and o': "orders d' = orders d"
      using T by auto
    from r have gr: "get_row (reservations d) k = Some r" and own: "is_staff u \<or> res_user r = user_id u"
      by (simp_all add: get_object_reservation_Inr)
    have r2: "get_object_reservation d' u k = Inr ?r'"
      using gr own res' by (simp add: get_object_reservation_Inr get_row_save_row)
    from ret' ev obtain ev' where ev2: "get_row (retreats d') (res_retreat ?r') = Some ev'"
      by (auto simp: get_row_save_row)
    have lo2: "line_and_order d' (res_order_line ?r') = Inr lo"
      using lo line_and_order_cong [OF ol' o'] by simp
    have "destroy e' d' u k = (Inr HTTP_204_NO_CONTENT, d', [])"
      by (rule destroy_inactive [OF r2 _ ev2 lo2]) simp
    then show ?thesis ..
  qed
qed

text \<open>
  C10. Cancellation is idempotent. Deleting a reservation that is already inactive
  answers with the same empty success response, calls no collaborator (no gateway
  refund) and changes nothing in the database; after a successful deletion, a second
  one (at any later time, whatever the gateway would answer) is such a no-op; and in
  every case two deletions in a row leave the database that the first one left.
\<close>

theorem destroy_idempotent:
  "(get_object_reservation d u k = Inr r \<longrightarrow> \<not> is_active r \<longrightarrow>
      get_row (retreats d) (res_retreat r) = Some ev \<longrightarrow>
      line_and_order d (res_order_line r) = Inr lo \<longrightarrow>
      destroy e d u k = (Inr HTTP_204_NO_CONTENT, d, []))
   \<and> (destroy e d u k = (Inr resp, d', effs) \<longrightarrow>
        destroy e' d' u k = (Inr HTTP_204_NO_CONTENT, d', []))
   \<and> fst (snd (destroy e (fst (snd (destroy e d u k))) u k)) = fst (snd (destroy e d u k))"
proof (intro conjI impI)
  show "fst (snd (destroy e (fst (snd (destroy e d u k))) u k)) = fst (snd (destroy e d u k))"
  proof -
    obtain res d1 effs1 where D: "destroy e d u k = (res, d1, effs1)" by (cases "destroy e d u k") auto
    from destroy_committed [OF D, of e] show ?thesis using D by auto
  qed
qed (erule (3) destroy_inactive, erule destroy_after_success)

theorem destroy_idempotent_witness:
  "get_object_reservation db_canceled user_1 1 = Inr (the (get_row (reservations db_canceled) 1))
   \<and> \<not> is_active (the (get_row (reservations db_canceled) 1))
   \<and> destroy env0 db_canceled user_1 1 = (Inr HTTP_204_NO_CONTENT, db_canceled, [])
   \<and> fst (destroy env0 db_A user_1 1) = Inr HTTP_204_NO_CONTENT
   \<and> destroy (env0\<lparr>now := 5\<rparr>) (fst (snd (destroy env0 db_A user_1 1))) user_1 1
        = (Inr HTTP_204_NO_CONTENT, fst (snd (destroy env0 db_A user_1 1)), [])"
proof -
  let ?r = "the (get_row (reservations db_canceled) 1)"
  have a: "get_object_reservation db_canceled user_1 1 = Inr ?r"
    and b: "\<not> is_active ?r"
    and c: "get_row (retreats db_canceled) (res_retreat ?r) = Some retreat_A"
    and d: "line_and_order db_canceled (res_order_line ?r) = Inr (Some ((1, line_1), order_1))"
    by (simp_all add: sample_defs destroy_eval)
  have f: "fst (destroy env0 db_A user_1 1) = Inr HTTP_204_NO_CONTENT"
    by (simp add: sample_defs destroy_eval)
  then have g: "destroy env0 db_A user_1 1 = (Inr HTTP_204_NO_CONTENT,
      fst (snd (destroy env0 db_A user_1 1)), snd (snd (destroy env0 db_A user_1 1)))"
    by (metis prod.collapse)
  note T = destroy_idempotent [of db_canceled user_1 1 ?r retreat_A "Some ((1, line_1), order_1)" env0]
  note U = destroy_idempotent [of db_A user_1 1 _ _ _ env0 HTTP_204_NO_CONTENT
      "fst (snd (destroy env0 db_A user_1 1))" "snd (snd (destroy env0 db_A user_1 1))" "env0\<lparr>now := 5\<rparr>"]
  from T a b c d have "destroy env0 db_canceled user_1 1 = (Inr HTTP_204_NO_CONTENT, db_canceled, [])"
    by blast
  moreover from U g have "destroy (env0\<lparr>now := 5\<rparr>) (fst (snd (destroy env0 db_A user_1 1))) user_1 1
        = (Inr HTTP_204_NO_CONTENT, fst (snd (destroy env0 db_A user_1 1)), [])"
    by blast
  ultimately show ?thesis using a b f by simp
qed

theorem cancel_soft_cancels_and_refunds_witness:
  "get_object_reservation db_A user_1 1 = Inr reservation_1 \<and> is_active reservation_1
   \<and> refund_res env0 = Inr ()
   \<and> get_row (reservations (fst (snd (destroy env0 db_A user_1 1)))) 1 =
        Some (reservation_1\<lparr>is_active := False, cancelation_reason := Some ''U'',
                cancelation_date := Some 0, cancelation_action := Some ''R''\<rparr>)
   \<and> filter is_gateway_refund (snd (snd (destroy env0 db_A user_1 1))) =
        [Refund_amount ''1'' (199 * 50 / 100 * (1 + 3 / 20) * 100)]"
proof -
  have a: "get_object_reservation db_A user_1 1 = Inr reservation_1"
    and b: "is_active reservation_1"
    and c: "get_row (retreats db_A) (res_retreat reservation_1) = Some retreat_A"
    and d: "line_and_order db_A (res_order_line reservation_1) = Inr (Some ((1, line_1), order_1))"
    and q: "\<forall>l order. Some ((1, line_1), order_1) = Some (l, order) \<longrightarrow> quantity (snd l) \<le> 1"
    and g: "refund_res env0 = Inr ()"
    by (simp_all add: sample_defs destroy_eval)
  from cancel_soft_cancels_and_refunds [OF a b c d q g] a b g show ?thesis
    by (auto simp: sample_defs timedelta_def Let_def)
qed

theorem cancel_reevaluates_reserved_seats_witness:
  "fst (destroy env0 db_one_seat user_1 1) = Inr HTTP_204_NO_CONTENT
   \<and> get_object_reservation db_one_seat user_1 1 = Inr reservation_1 \<and> is_active reservation_1
   \<and> 0 \<le> reserved_seats (retreat_A\<lparr>seats := 1\<rparr>)
   \<and> get_row (retreats (fst (snd (destroy env0 db_one_seat user_1 1)))) 1 =
        Some (retreat_A\<lparr>seats := 1, reserved_seats := 1\<rparr>)
   \<and> Notify_scheduler_waite_queue 1 \<in> set (snd (snd (destroy env0 db_one_seat user_1 1)))"
proof -
  have f: "fst (destroy env0 db_one_seat user_1 1) = Inr HTTP_204_NO_CONTENT"
    by (simp add: sample_defs db_one_seat_def destroy_eval)
  then have D: "destroy env0 db_one_seat user_1 1 = (Inr HTTP_204_NO_CONTENT,
      fst (snd (destroy env0 db_one_seat user_1 1)), snd (snd (destroy env0 db_one_seat user_1 1)))"
    by (metis prod.collapse)
  have a: "get_object_reservation db_one_seat user_1 1 = Inr reservation_1"
    and b: "is_active reservation_1"
    and c: "get_row (retreats db_one_seat) (res_retreat reservation_1) = Some (retreat_A\<lparr>seats := 1\<rparr>)"
    and n: "0 \<le> reserved_seats (retreat_A\<lparr>seats := 1\<rparr>)"
    by (simp_all add: sample_defs db_one_seat_def destroy_eval)
  have cnt: "active_reservations_count (fst (snd (destroy env0 db_one_seat user_1 1))) 1 = 0"
    by (simp add: sample_defs db_one_seat_def destroy_eval)
  from cancel_reevaluates_reserved_seats [OF D a b c n] f a b n cnt show ?thesis
    by (simp add: sample_defs)
qed

subsection \<open>Wait queue: \<^verbatim>\<open>RetreatViewSet.notify\<close> and \<^verbatim>\<open>WaitQueueViewSet.destroy\<close>\<close>

text \<open>
  C5, as amended. For every event, calling notify while some WaitQueueNotification of
  that event was created within the last 23 hours 55 minutes, and is not older than
  the retention window (always so when the retention is of one day or more), reports
  that the last notification was sent less than 24h ago, notifies nobody and creates
  no WaitQueueNotification record. It is not a no-op: the event's
  WaitQueueNotification records older than the retention window are deleted; nothing
  else changes.
\<close>

theorem notify_too_soon:
  assumes ev: "get_object_retreat d staff k = Inr ev"
    and n: "(kn, n) \<in> set (wait_queue_notifications d)" "wqn_retreat n = k"
    and recent: "now e - timedelta 0 23 55 < wqn_created_at n"
    and kept: "now e - timedelta (RETREAT_NOTIFICATION_LIFETIME_DAYS e) 0 0 \<le> wqn_created_at n"
  shows "notify e d staff k =
     (Inr (HTTP_200_OK ''Last notification was sent less than 24h ago.'' False),
      d\<lparr>wait_queue_notifications :=
           filter (\<lambda>(_, m). \<not> (wqn_created_at m
                        < now e - timedelta (RETREAT_NOTIFICATION_LIFETIME_DAYS e) 0 0
                      \<and> wqn_retreat m = k))
             (wait_queue_notifications d)\<rparr>,
      [])"
proof -
  let ?P = "\<lambda>(_, m). wqn_created_at m < now e - timedelta (RETREAT_NOTIFICATION_LIFETIME_DAYS e) 0 0
                      \<and> wqn_retreat m = k"
  have del: "delete_rows ?P (wait_queue_notifications d) =
             filter (\<lambda>(_, m). \<not> (wqn_created_at m
                        < now e - timedelta (RETREAT_NOTIFICATION_LIFETIME_DAYS e) 0 0
                      \<and> wqn_retreat m = k)) (wait_queue_notifications d)"
    by (simp add: delete_rows_def split_def)
  from n kept have "(kn, n) \<in> set (delete_rows ?P (wait_queue_notifications d))"
    by (auto simp: delete_rows_def)
  with n recent have "list_ex (\<lambda>(_, m). wqn_retreat m = k \<and> wqn_created_at m > now e - timedelta 0 23 55)
      (delete_rows ?P (wait_queue_notifications d))"
    by (auto simp: list_ex_iff)
  with ev del show ?thesis by (simp add: notify_def Let_def)
qed

text \<open>
  The claim C5 as first stated (the call is a no-op) fails when the event also has a
  notification older than the retention window: the call reports "too soon" and
  deletes the old record.
\<close>

theorem notify_too_soon_purges_counterexample:
  "list_ex (\<lambda>(_, n). wqn_retreat n = 1 \<and> now env_later - timedelta 0 23 55 < wqn_created_at n)
     (wait_queue_notifications db_notified)
   \<and> fst (notify env_later db_notified False 1) =
       Inr (HTTP_200_OK ''Last notification was sent less than 24h ago.'' False)
   \<and> fst (snd (notify env_later db_notified False 1)) \<noteq> db_notified"
  by (simp add: db_notified_def env_later_def sample_defs notify_def get_object_retreat_def get_row_def
     delete_rows_def timedelta_def Let_def)

lemma index_first:
  "k \<in> fst ` set t \<Longrightarrow>
     \<exists>i. index t k = Some i \<and> i < length t \<and> fst (t ! i) = k \<and> (\<forall>j<i. fst (t ! j) \<noteq> k)"
proof (induction t)
  case Nil then show ?case by simp
next
  case (Cons a t)
  obtain k' r where a: "a = (k', r)" by (cases a)
  show ?case
  proof (cases "k' = k")
    case True with a show ?thesis by simp
  next
    case False
    with Cons a obtain i where i: "index t k = Some i" "i < length t" "fst (t ! i) = k"
      "\<forall>j<i. fst (t ! j) \<noteq> k" by auto
    have "\<forall>j<Suc i. fst ((a # t) ! j) \<noteq> k"
    proof (intro allI impI)
      fix j assume "j < Suc i"
      then show "fst ((a # t) ! j) \<noteq> k" using i(4) a False by (cases j) auto
    qed
    with a False i show ?thesis by simp
  qed
qed

lemma wait_queue_list_ordered:
  "set (wait_queue_list d rid) = {kw \<in> set (wait_queues d). wq_retreat (snd kw) = rid}
   \<and> length (wait_queue_list d rid)
       = length (filter (\<lambda>kw. wq_retreat (snd kw) = rid) (wait_queues d))
   \<and> sorted (map (\<lambda>kw. wq_created_at (snd kw)) (wait_queue_list d rid))
   \<and> (\<forall>c. filter (\<lambda>kw. wq_created_at (snd kw) = c) (wait_queue_list d rid)
          = filter (\<lambda>kw. wq_created_at (snd kw) = c \<and> wq_retreat (snd kw) = rid) (wait_queues d))"
proof -
  have eq: "(\<lambda>(k, w). wq_retreat w = rid) = (\<lambda>kw. wq_retreat (snd kw) = rid)"
    by (simp add: split_def)
  show ?thesis
    unfolding wait_queue_list_def eq
    by (auto simp: sort_key_stable conj_commute)
qed

lemma get_row_in_set: "get_row t k = Some r \<Longrightarrow> (k, r) \<in> set t"
  by (simp add: get_row_def map_of_SomeD)

lemma get_row_delete_key: "get_row (delete_rows (\<lambda>(k', _). k' = k) t) k = None"
  by (induction t) (auto simp: get_row_def delete_rows_def)

lemma get_object_wait_queue_Inr:
  "get_object_wait_queue d u k = Inr w \<longleftrightarrow>
     get_row (wait_queues d) k = Some w \<and> (is_staff u \<or> wq_user w = user_id u)"
  by (auto simp: get_object_wait_queue_def split: option.splits)

text \<open>
  C6. The queue of an event is the list of the event's WaitQueue entries ordered by
  \<open>created_at\<close> (entries of equal \<open>created_at\<close> in table order), and the position of
  an entry is its index in that list. Deleting a WaitQueue entry whose position in
  the event's queue is strictly before the \<open>next_user_notified\<close> cursor decrements
  the cursor by exactly one; deleting an entry at or after the cursor leaves the
  cursor unchanged; in both cases every WaitQueueNotification of that (user, event)
  pair is deleted (and so is the entry).
\<close>

theorem unsubscribe_moves_cursor:
  assumes w: "get_object_wait_queue d u k = Inr w"
    and ev: "get_row (retreats d) (wq_retreat w) = Some ev"
  shows "\<exists>q pos d'.
     q = wait_queue_list d (wq_retreat w)
     \<and> set q = {kw \<in> set (wait_queues d). wq_retreat (snd kw) = wq_retreat w}
     \<and> length q = length (filter (\<lambda>kw. wq_retreat (snd kw) = wq_retreat w) (wait_queues d))
     \<and> sorted (map (\<lambda>kw. wq_created_at (snd kw)) q)
     \<and> (\<forall>c. filter (\<lambda>kw. wq_created_at (snd kw) = c) q
            = filter (\<lambda>kw. wq_created_at (snd kw) = c \<and> wq_retreat (snd kw) = wq_retreat w)
                (wait_queues d))
     \<and> index q k = Some pos
     \<and> pos < length q \<and> fst (q ! pos) = k \<and> (\<forall>j<pos. fst (q ! j) \<noteq> k)
     \<and> wait_queue_destroy d u k = (Inr HTTP_204_NO_CONTENT, d')
     \<and> get_row (retreats d') (wq_retreat w) =
         Some (ev\<lparr>next_user_notified :=
                    (if int pos < next_user_notified ev then next_user_notified ev - 1
                     else next_user_notified ev)\<rparr>)
     \<and> \<not> list_ex (\<lambda>(_, n). wqn_retreat n = wq_retreat w \<and> wqn_user n = wq_user w)
           (wait_queue_notifications d')
     \<and> get_row (wait_queues d') k = None"
proof -
  let ?rid = "wq_retreat w"
  let ?q = "wait_queue_list d ?rid"
  note Q = wait_queue_list_ordered [of d ?rid]
  from w have "(k, w) \<in> set (wait_queues d)"
    by (simp add: get_object_wait_queue_Inr get_row_in_set)
  then have "k \<in> fst ` set ?q"
    by (force simp: wait_queue_list_def)
  from index_first [OF this] obtain pos where
    pos: "index ?q k = Some pos" "pos < length ?q" "fst (?q ! pos) = k"
      "\<forall>j<pos. fst (?q ! j) \<noteq> k" by blast
  let ?D = "\<lambda>t::wait_queue_notification table.
      delete_rows (\<lambda>(_, n). wqn_retreat n = ?rid \<and> wqn_user n = wq_user w) t"
  have nol: "\<And>t. \<not> list_ex (\<lambda>(_, n). wqn_retreat n = ?rid \<and> wqn_user n = wq_user w) (?D t)"
    by (auto simp: delete_rows_def list_ex_iff)
  have D: "\<exists>d'. wait_queue_destroy d u k = (Inr HTTP_204_NO_CONTENT, d')
     \<and> get_row (retreats d') ?rid =
         Some (ev\<lparr>next_user_notified :=
                    (if int pos < next_user_notified ev then next_user_notified ev - 1
                     else next_user_notified ev)\<rparr>)
     \<and> \<not> list_ex (\<lambda>(_, n). wqn_retreat n = ?rid \<and> wqn_user n = wq_user w)
           (wait_queue_notifications d')
     \<and> get_row (wait_queues d') k = None"
  proof (cases "int pos < next_user_notified ev")
    case True
    with w ev pos(1) nol show ?thesis
      by (simp add: wait_queue_destroy_def Let_def get_row_save_row get_row_delete_key)
  next
    case False
    with w ev pos(1) nol show ?thesis
      by (simp add: wait_queue_destroy_def Let_def get_row_delete_key)
  qed
  then obtain d' where d': "wait_queue_destroy d u k = (Inr HTTP_204_NO_CONTENT, d')"
     "get_row (retreats d') ?rid =
         Some (ev\<lparr>next_user_notified :=
                    (if int pos < next_user_notified ev then next_user_notified ev - 1
                     else next_user_notified ev)\<rparr>)"
     "\<not> list_ex (\<lambda>(_, n). wqn_retreat n = ?rid \<and> wqn_user n = wq_user w)
           (wait_queue_notifications d')"
     "get_row (wait_queues d') k = None" by blast
  show ?thesis
    apply (rule exI [of _ ?q], rule exI [of _ pos], rule exI [of _ d'])
    using Q pos d' by blast
qed

theorem notify_too_soon_witness:
  "get_object_retreat db_notified False 1 = Inr retreat_A
   \<and> now env_later - timedelta 0 23 55 < timedelta 199 23 0
   \<and> now env_later - timedelta (RETREAT_NOTIFICATION_LIFETIME_DAYS env_later) 0 0
        \<le> timedelta 199 23 0
   \<and> notify env_later db_notified False 1 =
       (Inr (HTTP_200_OK ''Last notification was sent less than 24h ago.'' False),
        db_notified\<lparr>wait_queue_notifications :=
          [(2, \<lparr>wqn_user = 3, wqn_retreat = 1, wqn_created_at = timedelta 199 23 0\<rparr>)]\<rparr>,
        [])"
proof -
  let ?n = "\<lparr>wqn_user = 3, wqn_retreat = 1, wqn_created_at = timedelta 199 23 0\<rparr>"
  have a: "get_object_retreat db_notified False 1 = Inr retreat_A"
    by (simp add: db_notified_def sample_defs get_object_retreat_def get_row_def)
  have b: "(2, ?n) \<in> set (wait_queue_notifications db_notified)"
    by (simp add: db_notified_def)
  have c: "wqn_retreat ?n = 1" by simp
  have d: "now env_later - timedelta 0 23 55 < wqn_created_at ?n"
    by (simp add: env_later_def timedelta_def)
  have e: "now env_later - timedelta (RETREAT_NOTIFICATION_LIFETIME_DAYS env_later) 0 0
             \<le> wqn_created_at ?n"
    by (simp add: env_later_def env0_def timedelta_def)
  from notify_too_soon [OF a b c d e] a d e show ?thesis
    by (simp add: db_notified_def env_later_def env0_def timedelta_def)
qed

theorem unsubscribe_moves_cursor_witness:
  "get_object_wait_queue db_queue user_2 1 = Inr \<lparr>wq_user = 2, wq_retreat = 1, wq_created_at = 9\<rparr>
   \<and> get_object_wait_queue db_queue user_4 3 = Inr \<lparr>wq_user = 4, wq_retreat = 1, wq_created_at = 4\<rparr>
   \<and> wait_queue_list db_queue 1 = [(3, \<lparr>wq_user = 4, wq_retreat = 1, wq_created_at = 4\<rparr>),
                                    (1, \<lparr>wq_user = 2, wq_retreat = 1, wq_created_at = 9\<rparr>)]
   \<and> fst (wait_queue_destroy db_queue user_2 1) = Inr HTTP_204_NO_CONTENT
   \<and> get_row (retreats (snd (wait_queue_destroy db_queue user_2 1))) 1 =
        Some (retreat_A\<lparr>next_user_notified := 1\<rparr>)
   \<and> get_row (wait_queues (snd (wait_queue_destroy db_queue user_2 1))) 1 = None
   \<and> fst (wait_queue_destroy db_queue user_4 3) = Inr HTTP_204_NO_CONTENT
   \<and> get_row (retreats (snd (wait_queue_destroy db_queue user_4 3))) 1 =
        Some (retreat_A\<lparr>next_user_notified := 0\<rparr>)
   \<and> \<not> list_ex (\<lambda>(_, n). wqn_retreat n = 1 \<and> wqn_user n = 4)
         (wait_queue_notifications (snd (wait_queue_destroy db_queue user_4 3)))
   \<and> get_row (wait_queues (snd (wait_queue_destroy db_queue user_4 3))) 3 = None"
proof -
  let ?w1 = "\<lparr>wq_user = 2, wq_retreat = 1, wq_created_at = 9\<rparr>"
  let ?w3 = "\<lparr>wq_user = 4, wq_retreat = 1, wq_created_at = 4\<rparr>"
  have a1: "get_object_wait_queue db_queue user_2 1 = Inr ?w1"
    and a3: "get_object_wait_queue db_queue user_4 3 = Inr ?w3"
    by (simp_all add: db_queue_def user_2_def user_4_def get_object_wait_queue_def get_row_def)
  have b1: "get_row (retreats db_queue) (wq_retreat ?w1) = Some (retreat_A\<lparr>next_user_notified := 1\<rparr>)"
    and b3: "get_row (retreats db_queue) (wq_retreat ?w3) = Some (retreat_A\<lparr>next_user_notified := 1\<rparr>)"
    by (simp_all add: db_queue_def get_row_def)
  have q: "wait_queue_list db_queue 1 = [(3, ?w3), (1, ?w1)]"
    by (simp add: db_queue_def wait_queue_list_def)
  have i1: "index (wait_queue_list db_queue 1) 1 = Some 1"
    and i3: "index (wait_queue_list db_queue 1) 3 = Some 0"
    unfolding q by simp_all
  from unsubscribe_moves_cursor [OF a1 b1] i1
  have A: "fst (wait_queue_destroy db_queue user_2 1) = Inr HTTP_204_NO_CONTENT
     \<and> get_row (retreats (snd (wait_queue_destroy db_queue user_2 1))) 1 =
          Some (retreat_A\<lparr>next_user_notified := 1\<rparr>)
     \<and> get_row (wait_queues (snd (wait_queue_destroy db_queue user_2 1))) 1 = None"
    by auto
  from unsubscribe_moves_cursor [OF a3 b3] i3
  have B: "fst (wait_queue_destroy db_queue user_4 3) = Inr HTTP_204_NO_CONTENT
     \<and> get_row (retreats (snd (wait_queue_destroy db_queue user_4 3))) 1 =
          Some (retreat_A\<lparr>next_user_notified := 0\<rparr>)
     \<and> \<not> list_ex (\<lambda>(_, n). wqn_retreat n = 1 \<and> wqn_user n = 4)
           (wait_queue_notifications (snd (wait_queue_destroy db_queue user_4 3)))
     \<and> get_row (wait_queues (snd (wait_queue_destroy db_queue user_4 3))) 3 = None"
    by auto
  from A B a1 a3 q show ?thesis by blast
qed

subsection \<open>Reservations: \<^verbatim>\<open>ReservationSerializer.validate\<close> and \<^verbatim>\<open>update\<close>\<close>

lemmas sample_defs2 = sample_defs retreat_B_def retreat_C_def retreat_D_def db_exchange_def
  no_attrs_def duplicate_attrs_def

lemmas update_eval = update_def exchange_def exchange_checks_def ensure_profile_def
  first_profile_def reservation_times_def List.map_filter_def has_place_def total_reservations_def
  active_reservations_count_def delete_user_waiting_def delete_rows_def charge_step_def
  exchange_charge_def exchange_refund_def finish_exchange_def apply_attrs_def truthy_def token_def
  round2_def round_half_even_def int_of_decimal_def get_row_def save_row_def create_row_def
  timedelta_def Let_def

text \<open>
  C1 (defect of the code). The claim is that every attempt to create a reservation
  whose interval overlaps one of the user's active reservations is rejected. On
  creation \<^verbatim>\<open>validate\<close> leaves out of the comparison every reservation equal to the
  submitted data on all submitted fields, so a second reservation of the very same
  retreat for the same user passes, although its interval overlaps the first one's.
\<close>

theorem validate_accepts_duplicate_reservation:
  "get_row (reservations db_A) 1 = Some reservation_1
   \<and> res_user reservation_1 = 1 \<and> is_active reservation_1
   \<and> get_row (retreats db_A) (res_retreat reservation_1) = Some retreat_A
   \<and> max (start_time retreat_A) (start_time retreat_A) < min (end_time retreat_A) (end_time retreat_A)
   \<and> validate Create db_A duplicate_attrs = Inr duplicate_attrs"
  by (simp add: sample_defs2 validate_def matches_def given_def reservation_times_def
        List.map_filter_def get_row_def timedelta_def)

theorem validate_accepts_duplicate_reservation_witness:
  "validate Create db_A duplicate_attrs
     \<noteq> Inl (ValidationError Overlaps_with_another_active_reservation)"
  using validate_accepts_duplicate_reservation by simp

text \<open>
  C2 (defect of the code). The claim is that booking an event without places
  remaining, the exchange included, succeeds only through a reserved seat and a
  notification of the user, and then consumes the reserved seat and removes the
  user's notification. An exchange to a full retreat of the same price never checks
  the places and succeeds, here with no reserved seat and no notification.
\<close>

theorem exchange_into_full_retreat_succeeds:
  "get_places_remaining db_exchange (2, retreat_B) = 0
   \<and> reserved_seats retreat_B = 0
   \<and> fst (update env0 db_exchange False (1, reservation_1) (no_attrs\<lparr>a_retirement := Some 2\<rparr>))
       = Inr (reservation_1\<lparr>res_retreat := 2\<rparr>)"
  by (simp add: sample_defs2 update_eval get_places_remaining_def)

theorem exchange_into_full_retreat_succeeds_witness:
  "fst (update env0 db_exchange False (1, reservation_1) (no_attrs\<lparr>a_retirement := Some 2\<rparr>))
     \<noteq> Inl (ValidationError No_places_left)"
  using exchange_into_full_retreat_succeeds by simp

text \<open>
  The same defect on the path that does check the places: an exchange admitted through
  the reserved seat leaves \<open>reserved_seats\<close> and the user's notification as they were;
  only the wait-queue subscription is removed.
\<close>

lemma exchange_keeps_reserved_seat_and_notification:
  "get_places_remaining db_exchange (3, retreat_C) = - 1
   \<and> reserved_seats retreat_C = 1
   \<and> fst (update env0 db_exchange False (1, reservation_1) (no_attrs\<lparr>a_retirement := Some 3\<rparr>))
       = Inr (reservation_1\<lparr>res_retreat := 3\<rparr>)
   \<and> get_row (retreats (fst (snd (update env0 db_exchange False (1, reservation_1)
          (no_attrs\<lparr>a_retirement := Some 3\<rparr>))))) 3 = Some retreat_C
   \<and> wait_queue_notifications (fst (snd (update env0 db_exchange False (1, reservation_1)
          (no_attrs\<lparr>a_retirement := Some 3\<rparr>))))
       = [(1, \<lparr>wqn_user = 1, wqn_retreat = 3, wqn_created_at = - 10\<rparr>)]
   \<and> wait_queues (fst (snd (update env0 db_exchange False (1, reservation_1)
          (no_attrs\<lparr>a_retirement := Some 3\<rparr>)))) = []"
  by (simp add: sample_defs2 update_eval get_places_remaining_def)

text \<open>
  C9. For every reservation whose order line has a quantity greater than 1, the
  exchange (a partial update that names a retirement) and the cancellation of the
  active reservation are both rejected with the support-contact validation error; no
  collaborator is called and the database is left as it was.
\<close>

theorem quantity_above_1_rejected:
  "(a_retirement vd = Some new_id \<longrightarrow> get_row (retreats d) new_id = Some new_ev \<longrightarrow>
      res_order_line (snd inst) = Some ol \<longrightarrow> get_row (order_lines d) ol = Some line \<longrightarrow>
      1 < quantity line \<longrightarrow>
      update e d staff inst vd =
        (Inl (ValidationError Quantity_bigger_than_1_contact_support), d, []))
   \<and> (get_object_reservation d u k = Inr r \<longrightarrow> is_active r \<longrightarrow>
        get_row (retreats d) (res_retreat r) = Some ev \<longrightarrow>
        res_order_line r = Some ol' \<longrightarrow> get_row (order_lines d) ol' = Some line' \<longrightarrow>
        get_row (orders d) (ol_order line') = Some order \<longrightarrow>
        1 < quantity line' \<longrightarrow>
        destroy e' d u k =
          (Inl (ValidationError Quantity_bigger_than_1_contact_support), d, []))"
  by (simp add: update_def exchange_def destroy_def line_and_order_def Let_def)

lemma cents_alt: "int_of_decimal (round2 (a * (TAX_RATE e + 1) * 100)) = cents e a"
  by (simp add: cents_def algebra_simps)

lemma charge_step_effects:
  assumes "charge_step e pt st profile c oid = (Inr content, effs)"
  shows "\<exists>tok. filter is_gateway_charge effs = [Charge_payment c tok oid]
         \<and> filter is_gateway_refund effs = []"
  using assms
  by (auto simp: charge_step_def Let_def split: if_splits sum.splits option.splits)

lemma exchange_charge_effects:
  assumes "exchange_charge e d user ol cur new a pt st profile = (Inr x, effs)"
  shows "\<exists>tok oid. filter is_gateway_charge effs = [Charge_payment (cents e a) tok oid]
         \<and> filter is_gateway_refund effs = []"
proof -
  from assms obtain content effs0 oid where
    cs: "charge_step e pt st profile (cents e a) oid = (Inr content, effs0)"
    and effs: "effs = effs0 @ [Send_mail Purchase_confirmation user]"
    unfolding exchange_charge_def Let_def cents_alt
    by (auto split: if_splits prod.splits sum.splits)
  from charge_step_effects [OF cs] effs show ?thesis by auto
qed

lemma exchange_refund_effects:
  assumes "exchange_refund e d user l cur new a = (Inr x, effs)"
  shows "\<exists>order. get_row (orders d) (ol_order (snd l)) = Some order
           \<and> filter is_gateway_refund effs = [Refund_amount (settlement_id order) (of_int (cents e a))]
           \<and> filter is_gateway_charge effs = []"
  using assms unfolding exchange_refund_def Let_def cents_alt
  by (auto simp: delete_user_waiting_def split: if_splits option.splits sum.splits)

lemma ensure_profile_effects:
  assumes "ensure_profile e d user st nt = (res, effs)"
  shows "filter is_gateway_charge effs = [] \<and> filter is_gateway_refund effs = []"
  using assms by (auto simp: ensure_profile_def Let_def split: if_splits sum.splits)

lemma ensure_profile_no_transaction:
  "ensure_profile e d user st False = (Inr (d, first_profile d user), [])"
  by (simp add: ensure_profile_def Let_def)

lemma finish_exchange_effects:
  assumes "finish_exchange e d inst vd = (res, effs)"
  shows "filter is_gateway_charge effs = [] \<and> filter is_gateway_refund effs = []"
  using assms by (auto simp: finish_exchange_def Let_def split: if_splits option.splits)

lemma exchange_checks_Inr:
  assumes "exchange_checks e cur new pt st = Inr (nt, nr, a)"
  shows "nt = (price (snd cur) < price (snd new)) \<and> nr = (price (snd new) < price (snd cur))
         \<and> (nt \<longrightarrow> a = price (snd new) - price (snd cur))
         \<and> (nr \<longrightarrow> a = price (snd cur) - price (snd new))"
  using assms by (auto simp: exchange_checks_def Let_def split: if_splits)

lemma exchange_success:
  assumes ex: "exchange e d inst vd new_id pt st = (Inr d', effs)"
    and new: "get_row (retreats d) new_id = Some new_ev"
    and cur: "get_row (retreats d) (res_retreat (snd inst)) = Some cur_ev"
    and ol: "res_order_line (snd inst) = Some ol" "get_row (order_lines d) ol = Some line"
  shows "(price cur_ev < price new_ev \<longrightarrow>
            (\<exists>tok oid. filter is_gateway_charge effs
                 = [Charge_payment (cents e (price new_ev - price cur_ev)) tok oid])
            \<and> filter is_gateway_refund effs = [])
       \<and> (price new_ev < price cur_ev \<longrightarrow>
            (\<exists>order. get_row (orders d) (ol_order line) = Some order
               \<and> filter is_gateway_refund effs
                   = [Refund_amount (settlement_id order) (of_int (cents e (price cur_ev - price new_ev)))])
            \<and> filter is_gateway_charge effs = [])"
proof -
  let ?user = "res_user (snd inst)"
  let ?cur = "(res_retreat (snd inst), cur_ev)" and ?new = "(new_id, new_ev)"
  from ex new cur ol have q: "\<not> 1 < quantity line"
    by (auto simp: exchange_def Let_def split: if_splits)
  from ex new cur ol q obtain nt nr a where
    ck: "exchange_checks e ?cur ?new pt st = Inr (nt, nr, a)"
    by (auto simp: exchange_def Let_def split: sum.splits)
  note CK = exchange_checks_Inr [OF ck, simplified]
  from ex new cur ol q ck obtain d1 profile effs1 where
    ep: "ensure_profile e d ?user st nt = (Inr (d1, profile), effs1)"
    by (auto simp: exchange_def Let_def split: sum.splits prod.splits)
  note E1 = ensure_profile_effects [OF ep]
  let ?ov = "overlaps (reservation_times d1 (\<lambda>(k, r). res_user r = ?user \<and> is_active r \<and> k \<noteq> fst inst))
             (start_time new_ev) (end_time new_ev)"
  from ex new cur ol q ck ep have nov: "\<not> ?ov"
    by (auto simp: exchange_def Let_def split: if_splits)
  let ?step2 = "(if nt
            then (case exchange_charge e d1 ?user ol ?cur ?new a pt st profile of
                    (Inl err, effs) \<Rightarrow> (Inl err, effs)
                  | (Inr (d', orderline), effs) \<Rightarrow>
                      (Inr (d', vd\<lparr>a_order_line := Some (Some orderline)\<rparr>), effs))
            else (Inr (d1, vd), []))"
  from ex new cur ol q ck ep nov obtain d2 vd' effs2 where
    s2: "?step2 = (Inr (d2, vd'), effs2)"
    by (auto simp: exchange_def Let_def split: sum.splits prod.splits)
  let ?step3 = "(if nr then exchange_refund e d2 ?user (ol, line) ?cur ?new a else (Inr d2, []))"
  from ex new cur ol q ck ep nov s2 obtain d3 effs3 where
    s3: "?step3 = (Inr d3, effs3)"
    by (auto simp: exchange_def Let_def split: sum.splits prod.splits)
  from ex new cur ol q ck ep nov s2 s3 obtain effs4 res4 where
    s4: "finish_exchange e d3 inst vd' = (res4, effs4)"
    and effs: "effs = effs1 @ effs2 @ effs3 @ effs4"
    by (auto simp: exchange_def Let_def split: sum.splits prod.splits)
  note E4 = finish_exchange_effects [OF s4]
  show ?thesis
  proof (intro conjI impI)
    assume lt: "price cur_ev < price new_ev"
    with CK have nt: nt and nr: "\<not> nr" and a: "a = price new_ev - price cur_ev" by auto
    from s2 nt obtain x where
      ec: "exchange_charge e d1 ?user ol ?cur ?new a pt st profile = (Inr x, effs2)"
      by (auto split: prod.splits sum.splits)
    from s3 nr have e3: "effs3 = []" by simp
    from exchange_charge_effects [OF ec] E1 E4 effs e3 a
    show "\<exists>tok oid. filter is_gateway_charge effs
                 = [Charge_payment (cents e (price new_ev - price cur_ev)) tok oid]"
      and "filter is_gateway_refund effs = []"
      by auto
  next
    assume lt: "price new_ev < price cur_ev"
    with CK have nt: "\<not> nt" and nr: nr and a: "a = price cur_ev - price new_ev" by auto
    from s2 nt have e2: "effs2 = []" and d2: "d2 = d1" by simp_all
    from ep nt have d1: "d1 = d" by (simp add: ensure_profile_no_transaction)
    from s3 nr have er: "exchange_refund e d2 ?user (ol, line) ?cur ?new a = (Inr d3, effs3)" by simp
    from exchange_refund_effects [OF er] E1 E4 effs e2 a d1 d2
    show "\<exists>order. get_row (orders d) (ol_order line) = Some order
               \<and> filter is_gateway_refund effs
                   = [Refund_amount (settlement_id order) (of_int (cents e (price cur_ev - price new_ev)))]"
      and "filter is_gateway_charge effs = []"
      by auto
  qed
qed

text \<open>
  C4. In an exchange (a partial update that names another retirement, for a
  reservation with an order line): when the new price is strictly greater and neither
  a payment_token nor a single_use_token is given, the update fails with a validation
  error and changes nothing; when the update succeeds and the new price is strictly
  greater, exactly one charge went to the gateway, of the price difference plus
  proportional tax in integer cents, and no refund; when it succeeds and the new price
  is strictly lower, exactly one refund was asked of the gateway, on the settlement of
  the original order, of the price difference plus proportional tax in integer cents,
  and no charge.
\<close>

theorem exchange_charges_or_refunds_difference:
  assumes new: "a_retirement vd = Some new_id" "get_row (retreats d) new_id = Some new_ev"
    and cur: "get_row (retreats d) (res_retreat (snd inst)) = Some cur_ev"
    and ol: "res_order_line (snd inst) = Some ol" "get_row (order_lines d) ol = Some line"
  shows "(price cur_ev < price new_ev \<longrightarrow> \<not> truthy (a_payment_token vd) \<longrightarrow>
            \<not> truthy (a_single_use_token vd) \<longrightarrow>
            (\<exists>v. update e d staff inst vd = (Inl (ValidationError v), d, [])))
       \<and> (\<forall>r d' effs. update e d staff inst vd = (Inr r, d', effs) \<longrightarrow>
            (price cur_ev < price new_ev \<longrightarrow>
               (\<exists>tok oid. filter is_gateway_charge effs
                    = [Charge_payment (cents e (price new_ev - price cur_ev)) tok oid])
               \<and> filter is_gateway_refund effs = [])
          \<and> (price new_ev < price cur_ev \<longrightarrow>
               (\<exists>order. get_row (orders d) (ol_order line) = Some order
                  \<and> filter is_gateway_refund effs
                      = [Refund_amount (settlement_id order)
                           (of_int (cents e (price cur_ev - price new_ev)))])
               \<and> filter is_gateway_charge effs = []))"
proof (intro conjI impI allI)
  assume "price cur_ev < price new_ev" "\<not> truthy (a_payment_token vd)"
    "\<not> truthy (a_single_use_token vd)"
  with new cur ol show "\<exists>v. update e d staff inst vd = (Inl (ValidationError v), d, [])"
    by (simp add: update_def exchange_def exchange_checks_def Let_def)
next
  fix r d' effs
  assume up: "update e d staff inst vd = (Inr r, d', effs)"
  let ?vd2 = "(if \<not> staff then vd\<lparr>a_payment_token := None, a_single_use_token := None,
                   a_is_present := None\<rparr>
               else vd\<lparr>a_payment_token := None, a_single_use_token := None\<rparr>)"
  from up new have ex: "exchange e d inst ?vd2 new_id (a_payment_token vd) (a_single_use_token vd)
      = (Inr d', effs)"
    by (auto simp: update_def Let_def split: if_splits option.splits sum.splits prod.splits)
  note S = exchange_success [OF ex new(2) cur ol]
  { assume "price cur_ev < price new_ev"
    with S show "\<exists>tok oid. filter is_gateway_charge effs
                    = [Charge_payment (cents e (price new_ev - price cur_ev)) tok oid]"
      and "filter is_gateway_refund effs = []" by blast+ }
  { assume "price new_ev < price cur_ev"
    with S show "\<exists>order. get_row (orders d) (ol_order line) = Some order
                  \<and> filter is_gateway_refund effs
                      = [Refund_amount (settlement_id order)
                           (of_int (cents e (price cur_ev - price new_ev)))]"
      and "filter is_gateway_charge effs = []" by blast+ }
qed

theorem exchange_charges_or_refunds_difference_witness:
  "(\<exists>v. update env0 db_exchange False (1, reservation_1) (no_attrs\<lparr>a_retirement := Some 4\<rparr>)
          = (Inl (ValidationError v), db_exchange, []))
   \<and> (\<exists>tok oid. filter is_gateway_charge
          (snd (snd (update env0 db_exchange False (1, reservation_1) pricier_attrs)))
        = [Charge_payment 5865 tok oid])
   \<and> filter is_gateway_refund
        (snd (snd (update env0 db_exchange False (1, reservation_1) (no_attrs\<lparr>a_retirement := Some 3\<rparr>))))
      = [Refund_amount ''1'' 11385]"
proof -
  let ?inst = "(1, reservation_1)"
  have cur: "get_row (retreats db_exchange) (res_retreat (snd ?inst)) = Some retreat_A"
    and ol: "res_order_line (snd ?inst) = Some 1" "get_row (order_lines db_exchange) 1 = Some line_1"
    and n3: "get_row (retreats db_exchange) 3 = Some retreat_C"
    and n4: "get_row (retreats db_exchange) 4 = Some retreat_D"
    by (simp_all add: sample_defs2 get_row_def)
  have a4: "a_retirement (no_attrs\<lparr>a_retirement := Some 4\<rparr>) = Some 4"
    and p4: "a_retirement pricier_attrs = Some 4"
    and a3: "a_retirement (no_attrs\<lparr>a_retirement := Some 3\<rparr>) = Some 3"
    by (simp_all add: pricier_attrs_def)
  have lt: "price retreat_A < price retreat_D" and gt: "price retreat_C < price retreat_A"
    by (simp_all add: sample_defs2)
  have nt: "\<not> truthy (a_payment_token (no_attrs\<lparr>a_retirement := Some 4\<rparr>))"
           "\<not> truthy (a_single_use_token (no_attrs\<lparr>a_retirement := Some 4\<rparr>))"
    by (simp_all add: no_attrs_def truthy_def)
  have c1: "cents env0 (price retreat_D - price retreat_A) = 5865"
    and c2: "cents env0 (price retreat_A - price retreat_C) = 11385"
    by (simp_all add: sample_defs2 cents_def round2_def round_half_even_def int_of_decimal_def Let_def)
  have ok4: "\<exists>r. fst (update env0 db_exchange False ?inst pricier_attrs) = Inr r"
    by (simp add: sample_defs2 pricier_attrs_def update_eval)
  then obtain r4 where u4: "update env0 db_exchange False ?inst pricier_attrs
      = (Inr r4, fst (snd (update env0 db_exchange False ?inst pricier_attrs)),
         snd (snd (update env0 db_exchange False ?inst pricier_attrs)))"
    by (metis prod.collapse)
  have ok3: "\<exists>r. fst (update env0 db_exchange False ?inst (no_attrs\<lparr>a_retirement := Some 3\<rparr>)) = Inr r"
    by (simp add: sample_defs2 update_eval)
  then obtain r3 where u3: "update env0 db_exchange False ?inst (no_attrs\<lparr>a_retirement := Some 3\<rparr>)
      = (Inr r3, fst (snd (update env0 db_exchange False ?inst (no_attrs\<lparr>a_retirement := Some 3\<rparr>))),
         snd (snd (update env0 db_exchange False ?inst (no_attrs\<lparr>a_retirement := Some 3\<rparr>))))"
    by (metis prod.collapse)
  have o1: "get_row (orders db_exchange) (ol_order line_1) = Some order_1"
    and sid: "settlement_id order_1 = ''1''"
    by (simp_all add: sample_defs2 get_row_def)
  from exchange_charges_or_refunds_difference [OF a4 n4 cur ol, of env0 False] lt nt
  have A: "\<exists>v. update env0 db_exchange False ?inst (no_attrs\<lparr>a_retirement := Some 4\<rparr>)
          = (Inl (ValidationError v), db_exchange, [])" by blast
  from exchange_charges_or_refunds_difference [OF p4 n4 cur ol, of env0 False] u4 lt c1
  have B: "\<exists>tok oid. filter is_gateway_charge
          (snd (snd (update env0 db_exchange False ?inst pricier_attrs)))
        = [Charge_payment 5865 tok oid]" by metis
  from exchange_charges_or_refunds_difference [OF a3 n3 cur ol, of env0 False] u3 gt
  obtain order where "get_row (orders db_exchange) (ol_order line_1) = Some order"
    "filter is_gateway_refund
        (snd (snd (update env0 db_exchange False ?inst (no_attrs\<lparr>a_retirement := Some 3\<rparr>))))
      = [Refund_amount (settlement_id order) (of_int (cents env0 (price retreat_A - price retreat_C)))]"
    by metis
  with o1 sid c2 have C: "filter is_gateway_refund
        (snd (snd (update env0 db_exchange False ?inst (no_attrs\<lparr>a_retirement := Some 3\<rparr>))))
      = [Refund_amount ''1'' 11385]" by simp
  from A B C show ?thesis by blast
qed

theorem quantity_above_1_rejected_witness:
  "update env0 db_quantity_2 False (1, reservation_1) (no_attrs\<lparr>a_retirement := Some 1\<rparr>)
     = (Inl (ValidationError Quantity_bigger_than_1_contact_support), db_quantity_2, [])
   \<and> destroy env0 db_quantity_2 user_1 1
     = (Inl (ValidationError Quantity_bigger_than_1_contact_support), db_quantity_2, [])"
proof -
  have a: "a_retirement (no_attrs\<lparr>a_retirement := Some 1\<rparr>) = Some 1"
    and b: "get_row (retreats db_quantity_2) 1 = Some retreat_A"
    and c: "res_order_line (snd (1, reservation_1)) = Some 1"
    and d: "get_row (order_lines db_quantity_2) 1 = Some (line_1\<lparr>quantity := 2\<rparr>)"
    and q: "1 < quantity (line_1\<lparr>quantity := 2\<rparr>)"
    and g: "get_object_reservation db_quantity_2 user_1 1 = Inr reservation_1"
    and h: "is_active reservation_1"
    and i: "get_row (retreats db_quantity_2) (res_retreat reservation_1) = Some retreat_A"
    and j: "res_order_line reservation_1 = Some 1"
    and k: "get_row (orders db_quantity_2) (ol_order (line_1\<lparr>quantity := 2\<rparr>)) = Some order_1"
    by (simp_all add: sample_defs2 get_row_def get_object_reservation_def)
  from quantity_above_1_rejected [of "no_attrs\<lparr>a_retirement := Some 1\<rparr>" 1 db_quantity_2 retreat_A "(1, reservation_1)" 1
      "line_1\<lparr>quantity := 2\<rparr>" env0 False user_1 1 reservation_1 retreat_A 1
      "line_1\<lparr>quantity := 2\<rparr>" order_1 env0]
    a b c d q g h i j k
  show ?thesis by blast
qed

text \<open>
  What the code does achieve for C1: a creation is rejected when it overlaps an active
  reservation of the user that differs from the submitted data, and an exchange is
  rejected (with some validation error, the database unchanged) when the new retreat
  overlaps another active reservation of the user.
\<close>

lemma overlaps_iff:
  "overlaps ts s e \<longleftrightarrow> (\<exists>t \<in> set ts. max (fst t) s < min (snd t) e)"
  by (induction ts) auto

lemma overlaps_mem:
  "t \<in> set ts \<Longrightarrow> max (fst t) s < min (snd t) e \<Longrightarrow> overlaps ts s e"
  unfolding overlaps_iff by (rule bexI)

lemma reservation_times_cong:
  "retreats d' = retreats d \<Longrightarrow> reservations d' = reservations d
     \<Longrightarrow> reservation_times d' P = reservation_times d P"
  by (simp add: reservation_times_def cong: if_cong)

lemma reservation_times_mem:
  assumes "(k, r) \<in> set (reservations d)" "P (k, r)"
    "get_row (retreats d) (res_retreat r) = Some ev"
  shows "(start_time ev, end_time ev) \<in> set (reservation_times d P)"
  using assms by (force simp: reservation_times_def List.map_filter_def)

lemma validate_create_rejects_overlap:
  assumes "a_user a = Some u" "a_retirement a = Some rid" "get_row (retreats d) rid = Some new_ev"
    "a_payment_token a = None" "a_single_use_token a = None"
    and other: "(k, r) \<in> set (reservations d)" "res_user r = u" "is_active r" "\<not> matches a r"
      "get_row (retreats d) (res_retreat r) = Some ev"
    and ov: "max (start_time ev) (start_time new_ev) < min (end_time ev) (end_time new_ev)"
  shows "validate Create d a = Inl (ValidationError Overlaps_with_another_active_reservation)"
proof -
  have "(start_time ev, end_time ev) \<in> set (reservation_times d
          (\<lambda>(k, r). res_user r = u \<and> is_active r \<and> \<not> matches a r))"
    by (rule reservation_times_mem [OF other(1) _ other(5)]) (use other in simp)
  then have "overlaps (reservation_times d
          (\<lambda>(k, r). res_user r = u \<and> is_active r \<and> \<not> matches a r)) (start_time new_ev) (end_time new_ev)"
    by (rule overlaps_mem) (use ov in simp)
  with assms(1-5) show ?thesis by (simp add: validate_def)
qed

lemma ensure_profile_error:
  "ensure_profile e d user st nt = (Inl err, effs) \<Longrightarrow> \<exists>v. err = ValidationError v"
  by (auto simp: ensure_profile_def Let_def split: if_splits sum.splits)

lemma exchange_rejects_overlap:
  assumes new: "a_retirement vd = Some new_id" "get_row (retreats d) new_id = Some new_ev"
    and cur: "get_row (retreats d) (res_retreat (snd inst)) = Some cur_ev"
    and ol: "res_order_line (snd inst) = Some ol" "get_row (order_lines d) ol = Some line"
    and other: "(k, r) \<in> set (reservations d)" "k \<noteq> fst inst" "res_user r = res_user (snd inst)"
      "is_active r" "get_row (retreats d) (res_retreat r) = Some ev"
    and ov: "max (start_time ev) (start_time new_ev) < min (end_time ev) (end_time new_ev)"
  shows "\<exists>v effs. update e d staff inst vd = (Inl (ValidationError v), d, effs)"
proof -
  let ?user = "res_user (snd inst)"
  let ?P = "\<lambda>(k, r). res_user r = ?user \<and> is_active r \<and> k \<noteq> fst inst"
  have tabs: "\<And>st nt d1 p effs. ensure_profile e d ?user st nt = (Inr (d1, p), effs)
      \<Longrightarrow> reservation_times d1 ?P = reservation_times d ?P"
    by (rule reservation_times_cong)
       (auto simp: ensure_profile_def Let_def split: if_splits sum.splits)
  have "(start_time ev, end_time ev) \<in> set (reservation_times d ?P)"
    by (rule reservation_times_mem [OF other(1) _ other(5)]) (use other in simp)
  then have O: "overlaps (reservation_times d ?P) (start_time new_ev) (end_time new_ev)"
    by (rule overlaps_mem) (use ov in simp)
  have "\<exists>v effs. exchange e d inst
          (if \<not> staff then vd\<lparr>a_payment_token := None, a_single_use_token := None, a_is_present := None\<rparr>
           else vd\<lparr>a_payment_token := None, a_single_use_token := None\<rparr>)
          new_id (a_payment_token vd) (a_single_use_token vd) = (Inl (ValidationError v), effs)"
    using new cur ol O
    by (auto simp: exchange_def exchange_checks_def Let_def tabs
          dest: ensure_profile_error split: if_splits sum.splits prod.splits)
  with new show ?thesis
    by (auto simp: update_def Let_def)
qed

end
